theory Spec2Isabelle
  imports Main "HOL-Library.Char_ord" "HOL-Library.List_Lexorder"
begin

section \<open>JavaScript strings\<close>

text \<open>
  A JavaScript string is modelled as a \<^typ>\<open>string\<close>: each \<^typ>\<open>char\<close> stands for one
  UTF-16 code unit below 256, so \<^term>\<open>length\<close> is the \<^verbatim>\<open>.length\<close> of such a string.
  A thrown \<^verbatim>\<open>Error\<close> is modelled by its message: a fallible call returns
  \<^typ>\<open>string + 'a\<close>, with \<^term>\<open>Inl\<close> carrying the message of the error thrown.
\<close>

definition isSpaceChar :: "char \<Rightarrow> bool" where
  \<comment> \<open>the class \<^verbatim>\<open>\s\<close>, also what \<^verbatim>\<open>trim()\<close> strips: TAB, LF, VT, FF, CR, space, NBSP\<close>
  "isSpaceChar c = (let n = (of_char c :: nat) in (9 \<le> n \<and> n \<le> 13) \<or> n = 32 \<or> n = 160)"

definition isWordChar :: "char \<Rightarrow> bool" where
  \<comment> \<open>the class \<^verbatim>\<open>\w\<close>: \<^verbatim>\<open>[A-Za-z0-9_]\<close>\<close>
  "isWordChar c = (let n = (of_char c :: nat) in
     (48 \<le> n \<and> n \<le> 57) \<or> (65 \<le> n \<and> n \<le> 90) \<or> n = 95 \<or> (97 \<le> n \<and> n \<le> 122))"

definition isLineTerminator :: "char \<Rightarrow> bool" where
  "isLineTerminator c = (let n = (of_char c :: nat) in n = 10 \<or> n = 13)"

definition toLowerChar :: "char \<Rightarrow> char" where
  "toLowerChar c = (let n = (of_char c :: nat) in
     if (65 \<le> n \<and> n \<le> 90) \<or> (192 \<le> n \<and> n \<le> 222 \<and> n \<noteq> 215)
     then char_of (n + 32) else c)"

definition toUpperChar :: "char \<Rightarrow> char" where
  \<comment> \<open>\<^verbatim>\<open>toUpperCase()\<close> on one code unit; the code units whose upper case lies outside
      the 8-bit range are left as they are\<close>
  "toUpperChar c = (let n = (of_char c :: nat) in
     if (97 \<le> n \<and> n \<le> 122) \<or> (224 \<le> n \<and> n \<le> 254 \<and> n \<noteq> 247)
     then char_of (n - 32) else c)"

definition toLowerCase :: "string \<Rightarrow> string" where
  "toLowerCase s = map toLowerChar s"

definition trim :: "string \<Rightarrow> string" where
  "trim s = rev (dropWhile isSpaceChar (rev (dropWhile isSpaceChar s)))"

definition substring :: "nat \<Rightarrow> nat \<Rightarrow> string \<Rightarrow> string" where
  \<comment> \<open>\<^verbatim>\<open>s.substring(a, b)\<close>: the arguments are swapped when \<open>a > b\<close>\<close>
  "substring a b s = take (max a b - min a b) (drop (min a b) s)"

fun str_includes :: "string \<Rightarrow> string \<Rightarrow> bool" where
  "str_includes [] sub = (sub = [])"
| "str_includes (x # xs) sub = (take (length sub) (x # xs) = sub \<or> str_includes xs sub)"

fun joinWith :: "string \<Rightarrow> string list \<Rightarrow> string" where
  "joinWith sep [] = []"
| "joinWith sep [x] = x"
| "joinWith sep (x # y # ys) = x @ sep @ joinWith sep (y # ys)"

fun splitChar :: "char \<Rightarrow> string \<Rightarrow> string \<Rightarrow> string list" where
  \<comment> \<open>\<^verbatim>\<open>s.split(c)\<close> for a one-character separator; the second argument is the
      field read so far, reversed\<close>
  "splitChar c cur [] = [rev cur]"
| "splitChar c cur (x # xs) =
     (if x = c then rev cur # splitChar c [] xs else splitChar c (x # cur) xs)"

fun splitSpaces :: "bool \<Rightarrow> string \<Rightarrow> string \<Rightarrow> string list" where
  \<comment> \<open>\<^verbatim>\<open>s.split(/\s+/)\<close>; the flag says that the scan is inside a run of white space\<close>
  "splitSpaces inRun cur [] = [rev cur]"
| "splitSpaces inRun cur (x # xs) =
     (if isSpaceChar x
      then (if inRun then splitSpaces True [] xs else rev cur # splitSpaces True [] xs)
      else splitSpaces False (x # cur) xs)"

definition digitChar :: "nat \<Rightarrow> char" where
  "digitChar d = char_of (48 + d)"

function showNat :: "nat \<Rightarrow> string" where
  "showNat n = (if n < 10 then [digitChar n] else showNat (n div 10) @ [digitChar (n mod 10)])"
  by pat_completeness auto
termination
  by (relation "measure id") auto

declare showNat.simps [simp del]

definition showInt :: "int \<Rightarrow> string" where
  "showInt i = (if i < 0 then ''-'' @ showNat (nat (- i)) else showNat (nat i))"

definition nl :: string where
  "nl = [CHR 0x0A]"

section \<open>Regular expressions\<close>

text \<open>
  The regular expressions of the source are values of \<open>rx\<close>; \<open>rx_test\<close> is
  \<^verbatim>\<open>RegExp.prototype.test\<close> from index 0. A position is the remaining input together with
  the character before it (for \<^verbatim>\<open>^\<close> and \<^verbatim>\<open>\b\<close>); \<open>rx_run\<close> returns every position a match
  of the expression can end at. The first argument bounds the iterations of a star; an
  iteration must consume input, so the length of the input is always enough.
\<close>

datatype cc = Lit char | LitI char | AnyC | SpaceC | WordC | NotLit char

fun cc_ok :: "cc \<Rightarrow> char \<Rightarrow> bool" where
  "cc_ok (Lit a) c = (c = a)"
| "cc_ok (LitI a) c = (toLowerChar c = toLowerChar a)"
| "cc_ok AnyC c = (\<not> isLineTerminator c)"
| "cc_ok SpaceC c = isSpaceChar c"
| "cc_ok WordC c = isWordChar c"
| "cc_ok (NotLit a) c = (c \<noteq> a)"

datatype rx = Eps | Atom cc | Seq rx rx | Alt rx rx | Star rx | Bol | Eol | Bnd

type_synonym pos = "char option \<times> string"

fun rx_run :: "nat \<Rightarrow> rx \<Rightarrow> pos \<Rightarrow> pos list" where
  "rx_run n Eps p = [p]"
| "rx_run n (Atom k) (pc, []) = []"
| "rx_run n (Atom k) (pc, x # xs) = (if cc_ok k x then [(Some x, xs)] else [])"
| "rx_run n (Seq a b) p = concat (map (rx_run n b) (rx_run n a p))"
| "rx_run n (Alt a b) p = rx_run n a p @ rx_run n b p"
| "rx_run 0 (Star r) p = [p]"
| "rx_run (Suc n) (Star r) p =
     p # concat (map (rx_run n (Star r))
                     (filter (\<lambda>q. length (snd q) < length (snd p)) (rx_run (Suc n) r p)))"
| "rx_run n Bol (pc, s) = (if pc = None then [(pc, s)] else [])"
| "rx_run n Eol (pc, s) = (if s = [] then [(pc, s)] else [])"
| "rx_run n Bnd (pc, s) =
     (if (case pc of None \<Rightarrow> False | Some c \<Rightarrow> isWordChar c)
         \<noteq> (case s of [] \<Rightarrow> False | c # _ \<Rightarrow> isWordChar c)
      then [(pc, s)] else [])"

fun rx_scan :: "nat \<Rightarrow> rx \<Rightarrow> char option \<Rightarrow> string \<Rightarrow> bool" where
  "rx_scan n r pc [] = (rx_run n r (pc, []) \<noteq> [])"
| "rx_scan n r pc (x # xs) = (rx_run n r (pc, x # xs) \<noteq> [] \<or> rx_scan n r (Some x) xs)"

definition rx_test :: "rx \<Rightarrow> string \<Rightarrow> bool" where
  "rx_test r s = rx_scan (length s) r None s"

definition rx_lit :: "string \<Rightarrow> rx" where
  \<comment> \<open>a literal under the flag \<^verbatim>\<open>i\<close>\<close>
  "rx_lit s = foldr (\<lambda>c r. Seq (Atom (LitI c)) r) s Eps"

fun rx_alts :: "rx list \<Rightarrow> rx" where
  "rx_alts [] = Eps"
| "rx_alts [r] = r"
| "rx_alts (r # rs) = Alt r (rx_alts rs)"

definition rx_seqs :: "rx list \<Rightarrow> rx" where
  "rx_seqs rs = foldr Seq rs Eps"

definition rx_plus :: "rx \<Rightarrow> rx" where
  "rx_plus r = Seq r (Star r)"

definition rx_opt :: "rx \<Rightarrow> rx" where
  "rx_opt r = Alt r Eps"

definition rx_words :: "string list \<Rightarrow> rx" where
  \<comment> \<open>\<^verbatim>\<open>(w1|w2|...)\<close> under the flag \<^verbatim>\<open>i\<close>\<close>
  "rx_words ws = rx_alts (map rx_lit ws)"

section \<open>JSON values\<close>

text \<open>
  Values of type \<^verbatim>\<open>any\<close> and \<^verbatim>\<open>Record<string, any>\<close> (tool parameters and results, session
  metadata, parsed plans) are JSON values; an object keeps its keys in insertion order.
  Numbers are restricted to integers.
\<close>

datatype json = JNull | JBool bool | JNum int | JStr string
  | JArr "json list" | JObj "(string \<times> json) list"

fun truthy :: "json \<Rightarrow> bool" where
  "truthy JNull = False"
| "truthy (JBool b) = b"
| "truthy (JNum n) = (n \<noteq> 0)"
| "truthy (JStr s) = (s \<noteq> [])"
| "truthy (JArr xs) = True"
| "truthy (JObj kvs) = True"

fun jget :: "json \<Rightarrow> string \<Rightarrow> json option" where
  \<comment> \<open>property read \<^verbatim>\<open>o.k\<close>; \<^term>\<open>None\<close> is \<^verbatim>\<open>undefined\<close>\<close>
  "jget (JObj kvs) k = map_of kvs k"
| "jget _ k = None"

fun objSet :: "(string \<times> json) list \<Rightarrow> string \<Rightarrow> json \<Rightarrow> (string \<times> json) list" where
  \<comment> \<open>property write \<^verbatim>\<open>o.k = v\<close>: an existing key keeps its place\<close>
  "objSet [] k v = [(k, v)]"
| "objSet ((k', v') # kvs) k v =
     (if k' = k then (k, v) # kvs else (k', v') # objSet kvs k v)"

section \<open>The store and the outside world\<close>

datatype GuardrailAction = ALLOW | BLOCK | FILTER | MASK

datatype ExecutionStatus = PENDING | RUNNING | COMPLETED | FAILED

datatype MemoryType = CONTEXT | SUMMARY | FACT | TOOL_RESULT

datatype EventType = AUDIO_INPUT | AUDIO_OUTPUT | AGENT_PLAN | TOOL_CALL | ERROR | STATUS_CHANGE

record GuardrailLog =
  gl_sessionId :: "string option"
  gl_rule :: string
  gl_action :: GuardrailAction
  gl_input :: "string option"
  gl_reason :: string

record Session =
  s_id :: string
  s_userId :: string
  s_metadata :: "(string \<times> json) list option"

record Memory =
  m_sessionId :: string
  m_type :: MemoryType
  m_content :: string
  m_metadata :: json
  m_createdAt :: int

record Tool =
  t_name :: string
  t_description :: string
  t_schema :: "(string \<times> json) list"
  t_isActive :: bool

text \<open>
  A row of \<^verbatim>\<open>toolExecution\<close>; its \<^verbatim>\<open>id\<close> is its index in the table. The field
  \<open>te_history\<close> is not a column: it lists the statuses the row has been written with,
  oldest first, so that the transitions of a row can be stated.
\<close>

record ToolExecution =
  te_sessionId :: string
  te_toolName :: string
  te_input :: json
  te_output :: "json option"
  te_status :: ExecutionStatus
  te_error :: "string option"
  te_duration :: "int option"
  te_completedAt :: "int option"
  te_history :: "ExecutionStatus list"

record SessionEvent =
  ev_sessionId :: string
  ev_type :: EventType
  ev_data :: json

datatype dbop =
    GuardrailLogCreate | SessionFindUnique | SessionUpdate | MemoryCreate | MemoryFindMany
  | ToolFindUnique | ToolFindMany | ToolExecutionCreate | ToolExecutionUpdate
  | SessionEventCreate

datatype ws_event =
    TextChunk string | TextComplete string | ErrorMessage string
  | SessionNameUpdated string string

text \<open>
  The state the services work on: the tables of the store, the store operations that
  currently fail (a call of one of them raises \<open>storeError\<close>; why the store fails is
  not modelled), the gateway's map from a
  session to its sockets, the events emitted so far (socket id and event, oldest first)
  and the outside world \<open>'w\<close> that the completion providers, the tools and the clock
  read and change.
\<close>

record 'w state =
  sessions :: "Session list"
  memories :: "Memory list"
  tools :: "Tool list"
  toolExecutions :: "ToolExecution list"
  sessionEvents :: "SessionEvent list"
  guardrailLogs :: "GuardrailLog list"
  failing :: "dbop list"
  activeSessions :: "(string \<times> string list) list"
  outbox :: "(string \<times> ws_event) list"
  world :: 'w

definition storeError :: string where
  "storeError = ''StoreError''"

definition fails :: "'w state \<Rightarrow> dbop \<Rightarrow> bool" where
  "fails s op = (op \<in> set (failing s))"

record chat_request =
  cr_model :: string
  cr_messages :: "(string \<times> string) list"
  cr_max_tokens :: nat

record AuthenticatedSocket =
  sock_id :: string
  sock_userId :: "string option"
  sock_sessionId :: "string option"

text \<open>
  What the services are configured with and what they call outside the repository.
  A completion provider is \<^term>\<open>None\<close> when its API key is not configured; a call of it
  raises, or returns the text of the first choice (\<^term>\<open>None\<close> when that has no text).
  A request is its model, its messages (role and content; the system prompt of the
  Anthropic call is the first message, of role \<open>system\<close>) and its token limit.
  \<open>executeHttpTool\<close> and \<open>executeFunctionTool\<close> stand for the HTTP request and the
  evaluation of the tool's code: from the schema and the parameters, a result or an
  error. The two paths of a turn, \<open>handleComplexQuery\<close> and \<open>handleSimpleChat\<close>, are
  parameters as well: what is proved of a turn holds whatever they emit and return.
\<close>

record 'w env =
  enabled :: bool
  now :: "'w \<Rightarrow> int"
  toISOString :: "int \<Rightarrow> string"
  JSON_parse :: "string \<Rightarrow> json option"
  openai :: "(chat_request \<Rightarrow> 'w \<Rightarrow> (string + string option) \<times> 'w) option"
  anthropic :: "(chat_request \<Rightarrow> 'w \<Rightarrow> (string + string option) \<times> 'w) option"
  executeHttpTool ::
    "(string \<times> json) list \<Rightarrow> (string \<times> json) list \<Rightarrow> 'w \<Rightarrow> (string + json) \<times> 'w"
  executeFunctionTool ::
    "(string \<times> json) list \<Rightarrow> (string \<times> json) list \<Rightarrow> 'w \<Rightarrow> (string + json) \<times> 'w"
  handleComplexQuery ::
    "string \<Rightarrow> string \<Rightarrow> AuthenticatedSocket \<Rightarrow> 'w state \<Rightarrow> (string + string) \<times> 'w state"
  handleSimpleChat ::
    "string \<Rightarrow> string \<Rightarrow> AuthenticatedSocket \<Rightarrow> 'w state \<Rightarrow> (string + string) \<times> 'w state"

section \<open>GuardrailsService\<close>

record validation =
  vr_allowed :: bool
  vr_action :: GuardrailAction
  vr_maskedInput :: "string option"
  vr_reason :: "string option"

definition promptInjectionPatterns :: "rx list" where
  \<open>promptInjectionPatterns =
    [ \<comment> \<open>\<^verbatim>\<open>/ignore\s+(previous|above|all)\s+instructions?/i\<close>\<close>
      rx_seqs [rx_lit ''ignore'', rx_plus (Atom SpaceC),
               rx_words [''previous'', ''above'', ''all''], rx_plus (Atom SpaceC),
               rx_lit ''instruction'', rx_opt (rx_lit ''s'')],
      \<comment> \<open>\<^verbatim>\<open>/system\s*:\s*(you are|act as|pretend)/i\<close>\<close>
      rx_seqs [rx_lit ''system'', Star (Atom SpaceC), rx_lit '':'', Star (Atom SpaceC),
               rx_words [''you are'', ''act as'', ''pretend'']],
      \<comment> \<open>\<^verbatim>\<open>/<\|(im_start|system|user)\|>/i\<close>\<close>
      rx_seqs [rx_lit ''<|'', rx_words [''im_start'', ''system'', ''user''], rx_lit ''|>''],
      \<comment> \<open>\<^verbatim>\<open>/\{.*(system|instruction|prompt).*\}/i\<close>\<close>
      rx_seqs [rx_lit ''{'', Star (Atom AnyC), rx_words [''system'', ''instruction'', ''prompt''],
               Star (Atom AnyC), rx_lit ''}''],
      \<comment> \<open>\<^verbatim>\<open>/(?:roleplay|jailbreak|override|bypass)/i\<close>\<close>
      rx_words [''roleplay'', ''jailbreak'', ''override'', ''bypass''],
      \<comment> \<open>\<^verbatim>\<open>/tell me your (instructions|prompts?|system)/i\<close>\<close>
      rx_seqs [rx_lit ''tell me your '',
               rx_alts [rx_lit ''instructions'', Seq (rx_lit ''prompt'') (rx_opt (rx_lit ''s'')),
                        rx_lit ''system'']] ]\<close>

definition maliciousPatterns :: "rx list" where
  \<open>maliciousPatterns =
    [ \<comment> \<open>\<^verbatim>\<open>/<script[^>]*>/gi\<close>\<close>
      rx_seqs [rx_lit ''<script'', Star (Atom (NotLit (CHR ''>''))), rx_lit ''>''],
      \<comment> \<open>\<^verbatim>\<open>/<\/script>/gi\<close>\<close>
      rx_lit ''</script>'',
      \<comment> \<open>\<^verbatim>\<open>/javascript:/gi\<close>\<close>
      rx_lit ''javascript:'',
      \<comment> \<open>\<^verbatim>\<open>/on\w+\s*=/gi\<close>\<close>
      rx_seqs [rx_lit ''on'', rx_plus (Atom WordC), Star (Atom SpaceC), rx_lit ''=''],
      \<comment> \<open>\<^verbatim>\<open>/<iframe/gi\<close>\<close>
      rx_lit ''<iframe'',
      \<comment> \<open>\<^verbatim>\<open>/eval\s*\(/gi\<close>\<close>
      rx_seqs [rx_lit ''eval'', Star (Atom SpaceC), rx_lit ''(''] ]\<close>

definition injectionMatch :: "string \<Rightarrow> bool" where
  \<comment> \<open>\<^verbatim>\<open>promptInjectionPatterns.find((pattern) => pattern.test(input))\<close> is defined\<close>
  "injectionMatch input = list_ex (\<lambda>pattern. rx_test pattern input) promptInjectionPatterns"

definition hasMaliciousContent :: "string \<Rightarrow> bool" where
  \<comment> \<open>the patterns are created at each call, so every \<^verbatim>\<open>test\<close> starts at index 0\<close>
  "hasMaliciousContent input = list_ex (\<lambda>pattern. rx_test pattern input) maliciousPatterns"

definition logGuardrail ::
  "string option \<Rightarrow> string \<Rightarrow> GuardrailAction \<Rightarrow> string option \<Rightarrow> string \<Rightarrow> 'w state
    \<Rightarrow> (string + GuardrailLog) \<times> 'w state" where
  "logGuardrail sessionId rule action input reason s =
    (if fails s GuardrailLogCreate then (Inl storeError, s)
     else
       (let row = \<lparr> gl_sessionId = sessionId, gl_rule = rule, gl_action = action,
                    gl_input = map_option (substring 0 500) input, gl_reason = reason \<rparr>
        in (Inr row, s\<lparr> guardrailLogs := guardrailLogs s @ [row] \<rparr>)))"

definition blocked :: "string \<Rightarrow> (string + GuardrailLog) \<times> 'w state
    \<Rightarrow> (string + validation) \<times> 'w state" where
  \<comment> \<open>what follows an awaited \<^verbatim>\<open>logGuardrail\<close>: its error, or the blocking result\<close>
  "blocked reason logged =
    (case logged of
       (Inl e, s') \<Rightarrow> (Inl e, s')
     | (Inr row, s') \<Rightarrow>
         (Inr \<lparr> vr_allowed = False, vr_action = BLOCK, vr_maskedInput = None,
                vr_reason = Some reason \<rparr>, s'))"

definition validateInput ::
  "'w env \<Rightarrow> string \<Rightarrow> string option \<Rightarrow> 'w state \<Rightarrow> (string + validation) \<times> 'w state" where
  "validateInput env input sessionId s =
    (if \<not> enabled env then
       (Inr \<lparr> vr_allowed = True, vr_action = ALLOW, vr_maskedInput = None, vr_reason = None \<rparr>, s)
     else if injectionMatch input then
       blocked ''Potential prompt injection detected''
         (logGuardrail sessionId ''prompt_injection_detection'' BLOCK (Some input)
            ''Prompt injection pattern detected'' s)
     else if length input > 10000 then
       blocked ''Input exceeds maximum length''
         (logGuardrail sessionId ''input_length_limit'' BLOCK (Some (substring 0 100 input))
            (''Input exceeds maximum length: '' @ showNat (length input) @ '' characters'') s)
     else if hasMaliciousContent input then
       blocked ''Malicious content detected''
         (logGuardrail sessionId ''malicious_content_detection'' BLOCK
            (Some (substring 0 100 input)) ''Malicious content detected'' s)
     else
       (Inr \<lparr> vr_allowed = True, vr_action = ALLOW, vr_maskedInput = None, vr_reason = None \<rparr>, s))"

definition maskedOr :: "validation \<Rightarrow> string \<Rightarrow> string" where
  \<comment> \<open>\<^verbatim>\<open>guardrailResult.maskedInput || input\<close>\<close>
  "maskedOr r input =
    (case vr_maskedInput r of None \<Rightarrow> input | Some m \<Rightarrow> (if m = [] then input else m))"

section \<open>MemoryService and SessionsService\<close>

definition addMemory ::
  "'w env \<Rightarrow> string \<Rightarrow> MemoryType option \<Rightarrow> string \<Rightarrow> json option \<Rightarrow> 'w state
    \<Rightarrow> (string + Memory) \<times> 'w state" where
  "addMemory env sessionId type content metadata s =
    (if fails s MemoryCreate then (Inl storeError, s)
     else
       (let row = \<lparr> m_sessionId = sessionId,
                    m_type = (case type of None \<Rightarrow> CONTEXT | Some t \<Rightarrow> t),
                    m_content = content,
                    m_metadata = (case metadata of None \<Rightarrow> JObj [] | Some m \<Rightarrow> m),
                    m_createdAt = now env (world s) \<rparr>
        in (Inr row, s\<lparr> memories := memories s @ [row] \<rparr>)))"

definition orderByCreatedAtDesc :: "Memory list \<Rightarrow> Memory list" where
  \<comment> \<open>\<^verbatim>\<open>orderBy: { createdAt: 'desc' }\<close>; the store does not say how it orders rows
      of equal time, here the later row of the table comes first\<close>
  "orderByCreatedAtDesc rows = rev (sort_key m_createdAt rows)"

definition getContext :: "string \<Rightarrow> nat \<Rightarrow> 'w state \<Rightarrow> string + Memory list" where
  "getContext sessionId limit s =
    (if fails s MemoryFindMany then Inl storeError
     else Inr (rev (take limit
            (orderByCreatedAtDesc (filter (\<lambda>m. m_sessionId m = sessionId) (memories s))))))"

definition getContextDefault :: "string \<Rightarrow> 'w state \<Rightarrow> string + Memory list" where
  \<comment> \<open>\<^verbatim>\<open>getContext(sessionId)\<close>: the parameter \<^verbatim>\<open>limit = 50\<close>\<close>
  "getContextDefault sessionId s = getContext sessionId 50 s"

definition addEvent ::
  "string \<Rightarrow> EventType \<Rightarrow> json \<Rightarrow> 'w state \<Rightarrow> (string + SessionEvent) \<times> 'w state" where
  "addEvent sessionId type data s =
    (if fails s SessionEventCreate then (Inl storeError, s)
     else
       (let row = \<lparr> ev_sessionId = sessionId, ev_type = type, ev_data = data \<rparr>
        in (Inr row, s\<lparr> sessionEvents := sessionEvents s @ [row] \<rparr>)))"

definition findSession :: "string \<Rightarrow> 'w state \<Rightarrow> string + Session option" where
  \<comment> \<open>\<^verbatim>\<open>prisma.session.findUnique({ where: { id } })\<close>\<close>
  "findSession sessionId s =
    (if fails s SessionFindUnique then Inl storeError
     else Inr (find (\<lambda>x. s_id x = sessionId) (sessions s)))"

section \<open>ToolsService\<close>

definition findAll :: "'w state \<Rightarrow> string + Tool list" where
  \<comment> \<open>\<^verbatim>\<open>where: { isActive: true }, orderBy: { name: 'asc' }\<close>, names compared code unit
      by code unit\<close>
  "findAll s =
    (if fails s ToolFindMany then Inl storeError
     else Inr (sort_key t_name (filter t_isActive (tools s))))"

fun jsString :: "json \<Rightarrow> string" where
  \<comment> \<open>\<^verbatim>\<open>String(v)\<close>\<close>
  "jsString JNull = ''null''"
| "jsString (JBool b) = (if b then ''true'' else ''false'')"
| "jsString (JNum n) = showInt n"
| "jsString (JStr t) = t"
| "jsString (JArr xs) = joinWith '','' (map (\<lambda>x. if x = JNull then [] else jsString x) xs)"
| "jsString (JObj kvs) = ''[object Object]''"

definition joinItem :: "json \<Rightarrow> string" where
  \<comment> \<open>how \<^verbatim>\<open>Array.prototype.join\<close> writes an element\<close>
  "joinItem x = (if x = JNull then [] else jsString x)"

definition templ :: "json option \<Rightarrow> string" where
  \<comment> \<open>a value inside a template literal; \<^term>\<open>None\<close> is \<^verbatim>\<open>undefined\<close>\<close>
  "templ v = (case v of None \<Rightarrow> ''undefined'' | Some x \<Rightarrow> jsString x)"

definition truthyOpt :: "json option \<Rightarrow> bool" where
  "truthyOpt v = (case v of None \<Rightarrow> False | Some x \<Rightarrow> truthy x)"

definition notFound :: "string \<Rightarrow> string" where
  \<open>notFound toolName = ''Tool "'' @ toolName @ ''" not found or inactive''\<close>

definition executeTool ::
  "'w env \<Rightarrow> Tool \<Rightarrow> (string \<times> json) list \<Rightarrow> string \<Rightarrow> 'w
    \<Rightarrow> (string + json) \<times> (string \<times> json) list \<times> 'w" where
  \<comment> \<open>returns the result, the parameter object as the call leaves it (the session id is
      written into the caller's object) and the world\<close>
  "executeTool env tool parameters sessionId w =
    (let schema = t_schema tool;
         parameters' =
           (if sessionId \<noteq> [] \<and> \<not> truthyOpt (map_of parameters ''sessionId'')
            then objSet parameters ''sessionId'' (JStr sessionId) else parameters)
     in if map_of schema ''type'' = Some (JStr ''http'') then
          (let (r, w') = executeHttpTool env schema parameters' w in (r, parameters', w'))
        else if map_of schema ''type'' = Some (JStr ''function'') then
          (let (r, w') = executeFunctionTool env schema parameters' w in (r, parameters', w'))
        else
          (Inl (''Unsupported tool type: '' @ templ (map_of schema ''type'')), parameters', w))"

definition updateExecution ::
  "nat \<Rightarrow> (ToolExecution \<Rightarrow> ToolExecution) \<Rightarrow> 'w state \<Rightarrow> string + 'w state" where
  \<comment> \<open>\<^verbatim>\<open>prisma.toolExecution.update({ where: { id }, data })\<close>\<close>
  "updateExecution i f s =
    (if fails s ToolExecutionUpdate then Inl storeError
     else if i < length (toolExecutions s) then
       Inr (s\<lparr> toolExecutions := (toolExecutions s)[i := f (toolExecutions s ! i)] \<rparr>)
     else Inl ''Record to update not found.'')"

definition settleFailed ::
  "'w env \<Rightarrow> nat \<Rightarrow> int \<Rightarrow> string \<Rightarrow> 'w state \<Rightarrow> (string + json) \<times> 'w state" where
  \<comment> \<open>the \<^verbatim>\<open>catch\<close> block of \<^verbatim>\<open>execute\<close>\<close>
  "settleFailed env i startTime message s =
    (let duration = now env (world s) - startTime in
     case updateExecution i
            (\<lambda>row. row\<lparr> te_status := FAILED, te_error := Some message,
                         te_duration := Some duration,
                         te_completedAt := Some (now env (world s)),
                         te_history := te_history row @ [FAILED] \<rparr>) s of
       Inl e \<Rightarrow> (Inl e, s)
     | Inr s' \<Rightarrow> (Inl message, s'))"

definition execute ::
  "'w env \<Rightarrow> string \<Rightarrow> string \<Rightarrow> (string \<times> json) list \<Rightarrow> 'w state
    \<Rightarrow> (string + json) \<times> (string \<times> json) list \<times> 'w state" where
  \<comment> \<open>returns the result, the caller's parameter object as the call leaves it, and the
      state\<close>
  "execute env sessionId toolName parameters s =
    (if fails s ToolFindUnique then (Inl storeError, parameters, s)
     else case find (\<lambda>t. t_name t = toolName) (tools s) of
       None \<Rightarrow> (Inl (notFound toolName), parameters, s)
     | Some tool \<Rightarrow>
         if \<not> t_isActive tool then (Inl (notFound toolName), parameters, s)
         else if fails s ToolExecutionCreate then (Inl storeError, parameters, s)
         else
           (let i = length (toolExecutions s);
                s1 = s\<lparr> toolExecutions := toolExecutions s @
                       [\<lparr> te_sessionId = sessionId, te_toolName = toolName,
                          te_input = JObj parameters, te_output = None,
                          te_status = RUNNING, te_error = None, te_duration = None,
                          te_completedAt = None, te_history = [RUNNING] \<rparr>] \<rparr>;
                startTime = now env (world s1);
                (r, parameters', w') = executeTool env tool parameters sessionId (world s1);
                s2 = s1\<lparr> world := w' \<rparr>
            in case r of
                 Inl message \<Rightarrow>
                   (let (e, s3) = settleFailed env i startTime message s2
                    in (e, parameters', s3))
               | Inr result \<Rightarrow>
                   (let duration = now env (world s2) - startTime in
                    case updateExecution i
                           (\<lambda>row. row\<lparr> te_output := Some result, te_status := COMPLETED,
                                        te_duration := Some duration,
                                        te_completedAt := Some (now env (world s2)),
                                        te_history := te_history row @ [COMPLETED] \<rparr>) s2 of
                      Inl e \<Rightarrow>
                        (let (e', s3) = settleFailed env i startTime e s2
                         in (e', parameters', s3))
                    | Inr s3 \<Rightarrow>
                        (case addEvent sessionId TOOL_CALL
                                (JObj [(''tool'', JStr toolName), (''input'', JObj parameters'),
                                       (''output'', result), (''duration'', JNum duration)]) s3 of
                           (Inl e, s4) \<Rightarrow>
                             (let (e', s5) = settleFailed env i startTime e s4
                              in (e', parameters', s5))
                         | (Inr ev, s4) \<Rightarrow> (Inr result, parameters', s4)))))"

text \<open>
  \<^verbatim>\<open>execute\<close> above takes the parameters as its signature types them, an object. The
  loop of \<^verbatim>\<open>executePlan\<close> passes \<^verbatim>\<open>step.parameters || {}\<close> unchecked, which for a plan read
  by \<^verbatim>\<open>JSON.parse\<close> is any truthy value. \<open>executeAny\<close> and \<open>executeToolAny\<close> are the same
  two methods on a value of any shape. The tool reads its parameters by name
  (\<^verbatim>\<open>parameters[key]\<close>): \<open>propertiesOf\<close> is what it then finds, the members of an object and
  the indices of an array or of a string. The class is strict mode code, so writing the
  session id into a string, a number or a boolean throws; written into an array it is a
  property of the array that is not one of its elements. The column \<^verbatim>\<open>input\<close> of an
  execution is \<^verbatim>\<open>NOT NULL\<close>, so the store refuses to create the row of a call whose
  parameters are \<^verbatim>\<open>null\<close>.
\<close>

fun propertiesOf :: "json \<Rightarrow> (string \<times> json) list" where
  "propertiesOf (JObj kvs) = kvs"
| "propertiesOf (JArr xs) = zip (map showNat [0..<length xs]) xs"
| "propertiesOf (JStr t) = zip (map showNat [0..<length t]) (map (\<lambda>c. JStr [c]) t)"
| "propertiesOf _ = []"

fun typeofName :: "json \<Rightarrow> string" where
  \<comment> \<open>\<^verbatim>\<open>typeof v\<close>\<close>
  "typeofName (JStr t) = ''string''"
| "typeofName (JNum n) = ''number''"
| "typeofName (JBool b) = ''boolean''"
| "typeofName _ = ''object''"

fun injectSessionId :: "string \<Rightarrow> json \<Rightarrow> string + json \<times> (string \<times> json) list" where
  \<comment> \<open>\<^verbatim>\<open>parameters.sessionId = sessionId\<close>: the value as the assignment leaves it and the
      properties the tool then reads, or the error of the assignment\<close>
  \<open>injectSessionId sessionId (JObj kvs) =
     Inr (JObj (objSet kvs ''sessionId'' (JStr sessionId)),
          objSet kvs ''sessionId'' (JStr sessionId))\<close>
| \<open>injectSessionId sessionId (JArr xs) =
     Inr (JArr xs, propertiesOf (JArr xs) @ [(''sessionId'', JStr sessionId)])\<close>
| \<open>injectSessionId sessionId JNull =
     Inl ''Cannot set properties of null (setting 'sessionId')''\<close>
| \<open>injectSessionId sessionId v =
     Inl (''Cannot create property 'sessionId' on '' @ typeofName v @ '' ''
          @ [CHR 0x27] @ jsString v @ [CHR 0x27])\<close>

definition executeToolAny ::
  "'w env \<Rightarrow> Tool \<Rightarrow> json \<Rightarrow> string \<Rightarrow> 'w \<Rightarrow> (string + json) \<times> json \<times> 'w" where
  \<comment> \<open>\<^verbatim>\<open>executeTool\<close> on a value of any shape: the result, the value as the call leaves it
      and the world\<close>
  \<open>executeToolAny env tool parameters sessionId w =
    (let schema = t_schema tool;
         injected =
           (if sessionId \<noteq> [] then
              (if parameters = JNull then
                 Inl ''Cannot read properties of null (reading 'sessionId')''
               else if \<not> truthyOpt (jget parameters ''sessionId'')
               then injectSessionId sessionId parameters
               else Inr (parameters, propertiesOf parameters))
            else Inr (parameters, propertiesOf parameters))
     in case injected of
          Inl e \<Rightarrow> (Inl e, parameters, w)
        | Inr (parameters', properties) \<Rightarrow>
            if map_of schema ''type'' = Some (JStr ''http'') then
              (let (r, w') = executeHttpTool env schema properties w in (r, parameters', w'))
            else if map_of schema ''type'' = Some (JStr ''function'') then
              (let (r, w') = executeFunctionTool env schema properties w in (r, parameters', w'))
            else
              (Inl (''Unsupported tool type: '' @ templ (map_of schema ''type'')),
               parameters', w))\<close>

definition executeAny ::
  "'w env \<Rightarrow> string \<Rightarrow> string \<Rightarrow> json \<Rightarrow> 'w state \<Rightarrow> (string + json) \<times> json \<times> 'w state" where
  \<comment> \<open>\<^verbatim>\<open>execute\<close> on a value of any shape: the result, the caller's value as the call
      leaves it, and the state\<close>
  "executeAny env sessionId toolName parameters s =
    (if fails s ToolFindUnique then (Inl storeError, parameters, s)
     else case find (\<lambda>t. t_name t = toolName) (tools s) of
       None \<Rightarrow> (Inl (notFound toolName), parameters, s)
     | Some tool \<Rightarrow>
         if \<not> t_isActive tool then (Inl (notFound toolName), parameters, s)
         else if fails s ToolExecutionCreate \<or> parameters = JNull
         then (Inl storeError, parameters, s)
         else
           (let i = length (toolExecutions s);
                s1 = s\<lparr> toolExecutions := toolExecutions s @
                       [\<lparr> te_sessionId = sessionId, te_toolName = toolName,
                          te_input = parameters, te_output = None,
                          te_status = RUNNING, te_error = None, te_duration = None,
                          te_completedAt = None, te_history = [RUNNING] \<rparr>] \<rparr>;
                startTime = now env (world s1);
                (r, parameters', w') = executeToolAny env tool parameters sessionId (world s1);
                s2 = s1\<lparr> world := w' \<rparr>
            in case r of
                 Inl message \<Rightarrow>
                   (let (e, s3) = settleFailed env i startTime message s2
                    in (e, parameters', s3))
               | Inr result \<Rightarrow>
                   (let duration = now env (world s2) - startTime in
                    case updateExecution i
                           (\<lambda>row. row\<lparr> te_output := Some result, te_status := COMPLETED,
                                        te_duration := Some duration,
                                        te_completedAt := Some (now env (world s2)),
                                        te_history := te_history row @ [COMPLETED] \<rparr>) s2 of
                      Inl e \<Rightarrow>
                        (let (e', s3) = settleFailed env i startTime e s2
                         in (e', parameters', s3))
                    | Inr s3 \<Rightarrow>
                        (case addEvent sessionId TOOL_CALL
                                (JObj [(''tool'', JStr toolName), (''input'', parameters'),
                                       (''output'', result), (''duration'', JNum duration)]) s3 of
                           (Inl e, s4) \<Rightarrow>
                             (let (e', s5) = settleFailed env i startTime e s4
                              in (e', parameters', s5))
                         | (Inr ev, s4) \<Rightarrow> (Inr result, parameters', s4)))))"

section \<open>AgentService\<close>

text \<open>
  The interfaces \<^verbatim>\<open>AgentPlan\<close> and \<^verbatim>\<open>AgentStep\<close> exist at compile time only. The plan that
  \<^verbatim>\<open>executePlan\<close> receives is what \<^verbatim>\<open>plan\<close> returned, the unchecked value of \<^verbatim>\<open>JSON.parse\<close>, so
  a plan and its steps are JSON values here and every property read is the read of a
  JSON value: \<open>jget\<close>, with the error JavaScript throws when the value read from is
  \<^verbatim>\<open>null\<close>.
\<close>

record StepOutcome =
  oc_step :: json
  oc_result :: json
  oc_success :: bool

definition chatText :: "string + string option \<Rightarrow> string + string" where
  \<comment> \<open>\<^verbatim>\<open>content || ''\<close> of a completion, or the error of the call\<close>
  "chatText r = (case r of Inl e \<Rightarrow> Inl e | Inr None \<Rightarrow> Inr [] | Inr (Some c) \<Rightarrow> Inr c)"

definition responseRequest :: "string \<Rightarrow> json \<Rightarrow> chat_request" where
  "responseRequest model step =
    \<lparr> cr_model = model,
      cr_messages =
        [(''system'', ''You are a helpful voice assistant. Provide clear, concise responses.''),
         (''user'', ''Action: '' @ templ (jget step ''action'') @ nl
                    @ ''Reasoning: '' @ templ (jget step ''reasoning'')
                    @ nl @ nl @ ''Generate an appropriate response.'')],
      cr_max_tokens = 500 \<rparr>"

definition generateResponse ::
  "'w env \<Rightarrow> json \<Rightarrow> string \<Rightarrow> 'w \<Rightarrow> (string + string) \<times> 'w" where
  \<comment> \<open>every branch reads \<^verbatim>\<open>step.action\<close> first, which throws when the step is \<^verbatim>\<open>null\<close>\<close>
  \<open>generateResponse env step sessionId w =
    (if step = JNull then (Inl ''Cannot read properties of null (reading 'action')'', w)
     else
       (case openai env of
          Some call \<Rightarrow>
            (let (r, w') = call (responseRequest ''gpt-4-turbo-preview'' step) w
             in (chatText r, w'))
        | None \<Rightarrow>
            (case anthropic env of
               Some call \<Rightarrow>
                 (let (r, w') = call (responseRequest ''claude-3-5-sonnet-20241022'' step) w
                  in (chatText r, w'))
             | None \<Rightarrow>
                 (Inr (''I understand you want me to '' @ templ (jget step ''action'')), w))))\<close>

definition respondToStep ::
  "'w env \<Rightarrow> json \<Rightarrow> string \<Rightarrow> 'w state \<Rightarrow> (string + json) \<times> json \<times> 'w state" where
  \<comment> \<open>\<^verbatim>\<open>result = await this.generateResponse(step, sessionId)\<close>\<close>
  "respondToStep env step sessionId s =
    (let (r, w') = generateResponse env step sessionId (world s)
     in (map_sum id JStr r, step, s\<lparr> world := w' \<rparr>))"

definition withParameters :: "json \<Rightarrow> json \<Rightarrow> json" where
  \<comment> \<open>the step object once the call has written into its parameter object\<close>
  "withParameters step parameters' =
    (case step of JObj kvs \<Rightarrow> JObj (objSet kvs ''parameters'' parameters') | _ \<Rightarrow> step)"

definition runStep ::
  "'w env \<Rightarrow> string \<Rightarrow> json \<Rightarrow> 'w state \<Rightarrow> (string + json) \<times> json \<times> 'w state" where
  \<comment> \<open>the \<^verbatim>\<open>try\<close> block of the loop of \<^verbatim>\<open>executePlan\<close>, up to the \<^verbatim>\<open>push\<close>: the result or
      the error thrown, the step object as the block leaves it, and the state;
      \<^verbatim>\<open>step.parameters || {}\<close> is the step's own object when it is truthy and a fresh
      object otherwise\<close>
  \<open>runStep env sessionId step s =
    (if step = JNull then (Inl ''Cannot read properties of null (reading 'tool')'', step, s)
     else
       (case jget step ''tool'' of
          None \<Rightarrow> respondToStep env step sessionId s
        | Some tool \<Rightarrow>
            if \<not> truthy tool then respondToStep env step sessionId s
            else
              (case tool of
                 JStr t \<Rightarrow>
                   (let toolName = trim t in
                    if toolName = [] \<or> toolName = ''None'' \<or> toolName = ''null''
                       \<or> toolName = ''undefined''
                    then respondToStep env step sessionId s
                    else
                      (case jget step ''parameters'' of
                         Some parameters \<Rightarrow>
                           if truthy parameters then
                             (let (r, parameters', s') =
                                    executeAny env sessionId toolName parameters s
                              in (r, withParameters step parameters', s'))
                           else
                             (let (r, fresh', s') = executeAny env sessionId toolName (JObj []) s
                              in (r, step, s'))
                       | None \<Rightarrow>
                           (let (r, fresh', s') = executeAny env sessionId toolName (JObj []) s
                            in (r, step, s'))))
               | _ \<Rightarrow> (Inl ''step.tool.trim is not a function'', step, s))))\<close>

definition outcomeOf :: "json \<Rightarrow> string + json \<Rightarrow> StepOutcome" where
  \<comment> \<open>what the loop pushes: after the \<^verbatim>\<open>try\<close> block, or in the \<^verbatim>\<open>catch\<close> block\<close>
  "outcomeOf step r =
    (case r of
       Inr result \<Rightarrow> \<lparr> oc_step = step, oc_result = result, oc_success = True \<rparr>
     | Inl message \<Rightarrow>
         \<lparr> oc_step = step, oc_result = JObj [(''error'', JStr message)], oc_success = False \<rparr>)"

fun executeSteps ::
  "'w env \<Rightarrow> string \<Rightarrow> json list \<Rightarrow> StepOutcome list \<Rightarrow> 'w state
    \<Rightarrow> StepOutcome list \<times> 'w state" where
  \<comment> \<open>the loop, over the steps still to run\<close>
  "executeSteps env sessionId [] results s = (results, s)"
| "executeSteps env sessionId (step # rest) results s =
     (let (r, step', s') = runStep env sessionId step s
      in executeSteps env sessionId rest (results @ [outcomeOf step' r]) s')"

definition planSteps :: "json \<Rightarrow> string + json list" where
  \<comment> \<open>what \<^verbatim>\<open>for (const step of plan.steps)\<close> iterates over, outside the \<^verbatim>\<open>try\<close>: the
      elements of an array, the characters of a string, and a \<^verbatim>\<open>TypeError\<close> for any
      other value\<close>
  \<open>planSteps pl =
    (if pl = JNull then Inl ''Cannot read properties of null (reading 'steps')''
     else
       (case jget pl ''steps'' of
          Some (JArr steps) \<Rightarrow> Inr steps
        | Some (JStr t) \<Rightarrow> Inr (map (\<lambda>c. JStr [c]) t)
        | _ \<Rightarrow> Inl ''plan.steps is not iterable''))\<close>

definition executePlan ::
  "'w env \<Rightarrow> string \<Rightarrow> json \<Rightarrow> 'w state \<Rightarrow> (string + StepOutcome list) \<times> 'w state" where
  "executePlan env sessionId pl s =
    (case planSteps pl of
       Inl e \<Rightarrow> (Inl e, s)
     | Inr steps \<Rightarrow>
         (let (results, s') = executeSteps env sessionId steps [] s in (Inr results, s')))"

fun objectKeys :: "json \<Rightarrow> json list" where
  \<comment> \<open>\<^verbatim>\<open>Object.keys(v)\<close>\<close>
  "objectKeys (JObj kvs) = map (\<lambda>kv. JStr (fst kv)) kvs"
| "objectKeys (JArr xs) = map (\<lambda>i. JStr (showNat i)) [0..<length xs]"
| "objectKeys (JStr t) = map (\<lambda>i. JStr (showNat i)) [0..<length t]"
| "objectKeys _ = []"

definition toolParams :: "(string \<times> json) list \<Rightarrow> json list" where
  "toolParams schema =
    (if map_of schema ''type'' = Some (JStr ''http'') then
       (case map_of schema ''bodyParams'' of Some (JArr xs) \<Rightarrow> xs | _ \<Rightarrow> [])
       @ (case map_of schema ''queryParams'' of
            Some (JArr xs) \<Rightarrow> filter (\<lambda>p. p \<noteq> JStr ''sessionId'') xs
          | _ \<Rightarrow> [])
     else if truthyOpt (map_of schema ''parameters'') then
       (case map_of schema ''parameters'' of Some v \<Rightarrow> objectKeys v | None \<Rightarrow> [])
     else [])"

definition toolLine :: "Tool \<Rightarrow> string" where
  "toolLine t =
    (let params = toolParams (t_schema t);
         paramsList =
           (if length params > 0
            then nl @ ''  Required parameters: '' @ joinWith '', '' (map joinItem params)
            else [])
     in ''- '' @ t_name t @ '': '' @ t_description t @ paramsList)"

definition planPromptTail :: string where
  \<comment> \<open>the end of the user prompt of \<^verbatim>\<open>generatePlan\<close>, from the line after the context\<close>
  \<open>planPromptTail = ''

Please create a step-by-step plan to accomplish this task. For each step, specify:
1. The action to take
2. If a tool is needed, which tool and its parameters
3. The reasoning for this step

Format your response as JSON with this structure:
{
  "reasoning": "overall reasoning",
  "steps": [
    {
      "action": "description of action",
      "tool": "tool name if needed",
      "parameters": {},
      "reasoning": "why this step"
    }
  ]
}''\<close>

definition systemPromptHead :: string where
  \<open>systemPromptHead = ''You are an AI agent that plans multi-step tasks for a voice AI system.

Available tools:
''\<close>

definition systemPromptMiddle :: string where
  \<open>systemPromptMiddle = ''

Recent context:
''\<close>

definition systemPromptTail :: string where
  \<open>systemPromptTail = ''

Your job is to:
1. Understand the user's request
2. Break it down into executable steps
3. Identify which tools (if any) are needed for each step
4. Provide clear reasoning for each step

IMPORTANT RULES:
- Use the EXACT tool name from the "Available tools" list above (case-sensitive)
- If no tool is needed, set "tool" to null (not "None", not empty string)
- In "parameters", ONLY include the required parameter values as key-value pairs
- For send_email_notification: provide "to" (email), "subject" (string), "message" (string)
- Do NOT include schema metadata (url, type, method, headers, bodyParams, queryParams) in parameters

Example:
{
  "steps": [{
    "action": "Send email to user",
    "tool": "send_email_notification",
    "parameters": {
      "to": "user@example.com",
      "subject": "Hello",
      "message": "This is a test"
    }
  }]
}

Be concise and actionable.''\<close>

definition recentMemoriesOf :: "Memory list \<Rightarrow> Memory list" where
  \<comment> \<open>\<^verbatim>\<open>memories.slice(0, 10)\<close>\<close>
  "recentMemoriesOf mems = take 10 mems"

definition buildSystemPrompt :: "Tool list \<Rightarrow> Memory list \<Rightarrow> string" where
  "buildSystemPrompt availableTools mems =
    (let toolsDescription = joinWith nl (map toolLine (filter t_isActive availableTools));
         recentMemories =
           joinWith nl (map (\<lambda>m. ''- '' @ m_content m) (recentMemoriesOf mems))
     in systemPromptHead
        @ (if toolsDescription = [] then ''No tools available'' else toolsDescription)
        @ systemPromptMiddle
        @ (if recentMemories = [] then ''No recent context'' else recentMemories)
        @ systemPromptTail)"

definition planRequest :: "string \<Rightarrow> string \<Rightarrow> string \<Rightarrow> string option \<Rightarrow> chat_request" where
  "planRequest model userInput systemPrompt context =
    \<lparr> cr_model = model,
      cr_messages =
        [(''system'', systemPrompt),
         (''user'', ''User input: '' @ userInput @ nl
                    @ (case context of
                         None \<Rightarrow> []
                       | Some c \<Rightarrow> (if c = [] then [] else ''Context: '' @ c))
                    @ planPromptTail)],
      cr_max_tokens = 2000 \<rparr>"

definition generatePlan ::
  "'w env \<Rightarrow> string \<Rightarrow> string \<Rightarrow> string option \<Rightarrow> 'w \<Rightarrow> (string + string) \<times> 'w" where
  "generatePlan env userInput systemPrompt context w =
    (case openai env of
       Some call \<Rightarrow>
         (let (r, w') = call (planRequest ''gpt-4-turbo-preview'' userInput systemPrompt context) w
          in (chatText r, w'))
     | None \<Rightarrow>
         (case anthropic env of
            Some call \<Rightarrow>
              (let (r, w') =
                 call (planRequest ''claude-3-5-sonnet-20241022'' userInput systemPrompt context) w
               in (chatText r, w'))
          | None \<Rightarrow> (Inl ''No LLM provider configured'', w)))"

definition jsonMatch :: "string \<Rightarrow> string option" where
  \<comment> \<open>\<^verbatim>\<open>response.match(/\{[\s\S]*\}/)\<close>: from the first \<^verbatim>\<open>{\<close> to the last \<^verbatim>\<open>}\<close> after it\<close>
  "jsonMatch response =
    (case dropWhile (\<lambda>c. c \<noteq> CHR ''{'') response of
       [] \<Rightarrow> None
     | c # body \<Rightarrow>
         (if CHR ''}'' \<in> set body
          then Some (c # rev (dropWhile (\<lambda>c. c \<noteq> CHR ''}'') (rev body)))
          else None))"

definition respondToUser :: json where
  "respondToUser =
    JObj [(''action'', JStr ''respond_to_user''), (''reasoning'', JStr ''Error parsing agent plan'')]"

definition failedPlan :: json where
  \<comment> \<open>the fallback when the response has no match\<close>
  "failedPlan = JObj [(''reasoning'', JStr ''Failed to parse plan''), (''steps'', JArr [respondToUser])]"

definition errorPlan :: json where
  \<comment> \<open>the fallback of the \<^verbatim>\<open>catch\<close> block\<close>
  "errorPlan = JObj [(''reasoning'', JStr ''Error parsing plan''), (''steps'', JArr [respondToUser])]"

definition parsePlan :: "'w env \<Rightarrow> string \<Rightarrow> json" where
  \<comment> \<open>\<^verbatim>\<open>JSON.parse\<close> is \<open>JSON_parse env\<close>, \<^term>\<open>None\<close> when it throws; what it returns is
      returned as it is\<close>
  "parsePlan env response =
    (case jsonMatch response of
       Some m \<Rightarrow> (case JSON_parse env m of Some v \<Rightarrow> v | None \<Rightarrow> errorPlan)
     | None \<Rightarrow> failedPlan)"

definition planIdOf :: "json \<Rightarrow> string + json option" where
  \<comment> \<open>\<^verbatim>\<open>plan.steps.length\<close>: a \<^verbatim>\<open>TypeError\<close> when \<^verbatim>\<open>plan.steps\<close> is undefined or null\<close>
  \<open>planIdOf parsed =
    (case jget parsed ''steps'' of
       None \<Rightarrow> Inl ''Cannot read properties of undefined (reading 'length')''
     | Some JNull \<Rightarrow> Inl ''Cannot read properties of null (reading 'length')''
     | Some (JArr xs) \<Rightarrow> Inr (Some (JNum (int (length xs))))
     | Some (JStr t) \<Rightarrow> Inr (Some (JNum (int (length t))))
     | Some (JObj kvs) \<Rightarrow> Inr (map_of kvs ''length'')
     | Some _ \<Rightarrow> Inr None)\<close>

definition plan ::
  "'w env \<Rightarrow> string \<Rightarrow> string \<Rightarrow> string option \<Rightarrow> bool \<Rightarrow> 'w state \<Rightarrow> (string + json) \<times> 'w state" where
  "plan env sessionId userInput context storeMemory s =
    (case validateInput env userInput (Some sessionId) s of
       (Inl e, s1) \<Rightarrow> (Inl e, s1)
     | (Inr guardrailResult, s1) \<Rightarrow>
         if \<not> vr_allowed guardrailResult then
           (Inl (''Input blocked by guardrails: ''
                 @ templ (map_option JStr (vr_reason guardrailResult))), s1)
         else
           (let input = maskedOr guardrailResult userInput in
            case findSession sessionId s1 of
              Inl e \<Rightarrow> (Inl e, s1)
            | Inr None \<Rightarrow> (Inl ''Session not found'', s1)
            | Inr (Some session) \<Rightarrow>
                (case getContextDefault sessionId s1 of
                   Inl e \<Rightarrow> (Inl e, s1)
                 | Inr mems \<Rightarrow>
                     (case findAll s1 of
                        Inl e \<Rightarrow> (Inl e, s1)
                      | Inr availableTools \<Rightarrow>
                          (let systemPrompt = buildSystemPrompt availableTools mems;
                               (r, w') = generatePlan env input systemPrompt context (world s1);
                               s2 = s1\<lparr> world := w' \<rparr>
                           in case r of
                                Inl e \<Rightarrow> (Inl e, s2)
                              | Inr response \<Rightarrow>
                                  (let parsed = parsePlan env response in
                                   case addEvent sessionId AGENT_PLAN
                                          (JObj [(''input'', JStr input), (''plan'', parsed)]) s2 of
                                     (Inl e, s3) \<Rightarrow> (Inl e, s3)
                                   | (Inr ev, s3) \<Rightarrow>
                                       if storeMemory then
                                         (case planIdOf parsed of
                                            Inl e \<Rightarrow> (Inl e, s3)
                                          | Inr planId \<Rightarrow>
                                              (case addMemory env sessionId (Some CONTEXT)
                                                      (''User request: '' @ input)
                                                      (Some (JObj (case planId of
                                                                     None \<Rightarrow> []
                                                                   | Some n \<Rightarrow> [(''planId'', n)])))
                                                      s3 of
                                                 (Inl e, s4) \<Rightarrow> (Inl e, s4)
                                               | (Inr row, s4) \<Rightarrow> (Inr parsed, s4)))
                                       else (Inr parsed, s3)))))))"

section \<open>WebsocketGateway\<close>

fun rx_upto :: "nat \<Rightarrow> rx \<Rightarrow> rx" where
  \<comment> \<open>\<^verbatim>\<open>r{0,n}\<close>\<close>
  "rx_upto 0 r = Eps"
| "rx_upto (Suc n) r = rx_opt (Seq r (rx_upto n r))"

definition toolKeywords :: "string list" where
  "toolKeywords =
    [''search'', ''find'', ''look up'', ''weather'', ''calculate'',
     ''translate'', ''create'', ''generate'', ''make'', ''build'',
     ''send'', ''email'', ''message'', ''book'', ''schedule'', ''remind'']"

definition chatPatterns :: "rx list" where
  \<comment> \<open>\<^verbatim>\<open>simplePatterns\<close> of \<^verbatim>\<open>needsComplexProcessing\<close>\<close>
  \<open>chatPatterns =
    [ \<comment> \<open>\<^verbatim>\<open>/^(hi|hello|hey|yo|sup|okay|ok|yes|no|thanks|thank you)$/i\<close>\<close>
      rx_seqs [Bol, rx_words [''hi'', ''hello'', ''hey'', ''yo'', ''sup'', ''okay'', ''ok'', ''yes'',
                              ''no'', ''thanks'', ''thank you''], Eol],
      \<comment> \<open>\<^verbatim>\<open>/^(what|who|how|why|when|where)\s+.{0,50}$/i\<close>\<close>
      rx_seqs [Bol, rx_words [''what'', ''who'', ''how'', ''why'', ''when'', ''where''],
               rx_plus (Atom SpaceC), rx_upto 50 (Atom AnyC), Eol],
      \<comment> \<open>\<^verbatim>\<open>/^(i|you|we|it|that|this)\s+.{0,50}$/i\<close>\<close>
      rx_seqs [Bol, rx_words [''i'', ''you'', ''we'', ''it'', ''that'', ''this''],
               rx_plus (Atom SpaceC), rx_upto 50 (Atom AnyC), Eol] ]\<close>

definition needsComplexProcessing :: "string \<Rightarrow> bool" where
  "needsComplexProcessing input =
    (let lowerInput = toLowerCase input in
     if list_ex (\<lambda>pattern. rx_test pattern input) chatPatterns then False
     else list_ex (\<lambda>keyword. str_includes lowerInput keyword) toolKeywords)"

definition punct :: "string \<Rightarrow> rx" where
  \<comment> \<open>\<^verbatim>\<open>(\s|c1|c2|...)*\<close>\<close>
  "punct cs = Star (rx_alts (Atom SpaceC # map (\<lambda>c. Atom (Lit c)) cs))"

definition simplePatterns :: "rx list" where
  \<comment> \<open>\<^verbatim>\<open>simplePatterns\<close> of \<^verbatim>\<open>isSubstantiveMessage\<close>\<close>
  \<open>simplePatterns =
    [ \<comment> \<open>\<^verbatim>\<open>/^(hi|hello|hey|yo|sup|greetings)(\s|!|\.)*$/i\<close>\<close>
      rx_seqs [Bol, rx_words [''hi'', ''hello'', ''hey'', ''yo'', ''sup'', ''greetings''],
               punct ''!.'', Eol],
      \<comment> \<open>\<^verbatim>\<open>/^(thanks|thank you|thx|ok|okay|yes|no|yep|nope)(\s|!|\.)*$/i\<close>\<close>
      rx_seqs [Bol, rx_words [''thanks'', ''thank you'', ''thx'', ''ok'', ''okay'', ''yes'', ''no'',
                              ''yep'', ''nope''], punct ''!.'', Eol],
      \<comment> \<open>\<^verbatim>\<open>/^(good morning|good evening|good afternoon)(\s|!|\.)*$/i\<close>\<close>
      rx_seqs [Bol, rx_words [''good morning'', ''good evening'', ''good afternoon''],
               punct ''!.'', Eol],
      \<comment> \<open>\<^verbatim>\<open>/^(how are you|what's up|whats up)(\?|\s|!|\.)*$/i\<close>\<close>
      rx_seqs [Bol, rx_words [''how are you'', ''what's up'', ''whats up''], punct ''?!.'', Eol],
      \<comment> \<open>\<^verbatim>\<open>/^(bye|goodbye|see you|later|cya)(\s|!|\.)*$/i\<close>\<close>
      rx_seqs [Bol, rx_words [''bye'', ''goodbye'', ''see you'', ''later'', ''cya''],
               punct ''!.'', Eol] ]\<close>

definition questionWords :: rx where
  \<comment> \<open>\<^verbatim>\<open>/\b(what|why|how|when|where|who|can|could|would|should|is|are|do|does)\b/i\<close>\<close>
  "questionWords =
    rx_seqs [Bnd, rx_words [''what'', ''why'', ''how'', ''when'', ''where'', ''who'', ''can'',
                            ''could'', ''would'', ''should'', ''is'', ''are'', ''do'', ''does''], Bnd]"

definition contentWords :: rx where
  \<comment> \<open>\<^verbatim>\<open>/\b(help|need|want|issue|problem|question|about|regarding|looking|trying|create|make|build|fix|error)\b/i\<close>\<close>
  "contentWords =
    rx_seqs [Bnd, rx_words [''help'', ''need'', ''want'', ''issue'', ''problem'', ''question'',
                            ''about'', ''regarding'', ''looking'', ''trying'', ''create'', ''make'',
                            ''build'', ''fix'', ''error''], Bnd]"

definition isSubstantiveMessage :: "string \<Rightarrow> bool" where
  "isSubstantiveMessage message =
    (let trimmed = toLowerCase (trim message) in
     if length trimmed < 10 then False
     else if list_ex (\<lambda>pattern. rx_test pattern trimmed) simplePatterns then False
     else
       (let hasQuestionWords = rx_test questionWords trimmed;
            hasContentWords = rx_test contentWords trimmed
        in hasQuestionWords \<or> hasContentWords \<or> length trimmed > 20))"

definition stopWords :: "string list" where
  "stopWords =
    [''the'', ''a'', ''an'', ''and'', ''or'', ''but'', ''in'', ''on'', ''at'', ''to'', ''for'', ''of'',
     ''with'', ''by'', ''from'', ''about'', ''as'', ''into'', ''through'', ''during'', ''before'',
     ''after'', ''above'', ''below'', ''between'', ''under'', ''can'', ''you'', ''i'', ''me'', ''my'',
     ''we'', ''us'']"

definition capitalize :: "string \<Rightarrow> string" where
  \<comment> \<open>\<^verbatim>\<open>word.charAt(0).toUpperCase() + word.slice(1)\<close>\<close>
  "capitalize word = (case word of [] \<Rightarrow> [] | c # cs \<Rightarrow> toUpperChar c # cs)"

definition extractKeywords :: "string \<Rightarrow> string" where
  "extractKeywords message =
    (let words =
           filter (\<lambda>word. length word > 3 \<and> word \<notin> set stopWords)
             (splitSpaces False []
                (filter (\<lambda>c. isWordChar c \<or> isSpaceChar c) (toLowerCase message)));
         keywords = joinWith '' '' (take 5 words);
         titled = joinWith '' '' (map capitalize (splitChar (CHR '' '') [] keywords))
     in if titled = [] then substring 0 50 message else titled)"

definition nameRequest :: "string \<Rightarrow> chat_request" where
  \<open>nameRequest userMessage =
    \<lparr> cr_model = ''gpt-4o-mini'',
      cr_messages =
        [(''system'', ''You are a helpful assistant that generates short, descriptive titles for conversations. Generate a concise title (3-6 words maximum) that captures the main topic, question, or intent. Respond with ONLY the title, no quotes or extra text.''),
         (''user'', ''Generate a short title for this user query: "'' @ userMessage @ ''"'')],
      cr_max_tokens = 20 \<rparr>\<close>

definition generateName :: "'w env \<Rightarrow> string \<Rightarrow> 'w \<Rightarrow> string \<times> 'w" where
  \<comment> \<open>the name before it is cleaned; the inner \<^verbatim>\<open>try\<close> turns a failed call into the keywords\<close>
  "generateName env userMessage w =
    (case openai env of
       Some call \<Rightarrow>
         (case call (nameRequest userMessage) w of
            (Inl e, w') \<Rightarrow> (extractKeywords userMessage, w')
          | (Inr None, w') \<Rightarrow> (substring 0 50 userMessage, w')
          | (Inr (Some content), w') \<Rightarrow>
              (if trim content = [] then substring 0 50 userMessage else trim content, w'))
     | None \<Rightarrow> (extractKeywords userMessage, w))"

definition cleanName :: "string \<Rightarrow> string" where
  \<open>cleanName generatedName =
    (let cleaned = trim (filter (\<lambda>c. c \<noteq> CHR 0x27 \<and> c \<noteq> CHR 0x22) generatedName)
     in if length cleaned > 50 then substring 0 47 cleaned @ ''...'' else cleaned)\<close>

definition broadcastToSession :: "string \<Rightarrow> ws_event \<Rightarrow> 'w state \<Rightarrow> 'w state" where
  "broadcastToSession sessionId event s =
    (case map_of (activeSessions s) sessionId of
       None \<Rightarrow> s
     | Some sockets \<Rightarrow> s\<lparr> outbox := outbox s @ map (\<lambda>socketId. (socketId, event)) sockets \<rparr>)"

definition autoGenerateSessionName :: "'w env \<Rightarrow> string \<Rightarrow> string \<Rightarrow> 'w state \<Rightarrow> 'w state" where
  \<comment> \<open>every error raised inside is caught by the outer \<^verbatim>\<open>catch\<close>, which logs it\<close>
  "autoGenerateSessionName env sessionId userMessage s =
    (case findSession sessionId s of
       Inl e \<Rightarrow> s
     | Inr None \<Rightarrow> s
     | Inr (Some session) \<Rightarrow>
         (let metadata = (case s_metadata session of None \<Rightarrow> [] | Some m \<Rightarrow> m) in
          if truthyOpt (map_of metadata ''name'') then s
          else if \<not> isSubstantiveMessage userMessage then s
          else
            (let (generatedName, w') = generateName env userMessage (world s);
                 name = cleanName generatedName;
                 s1 = s\<lparr> world := w' \<rparr>
             in if fails s1 SessionUpdate then s1
                else
                  (let metadata' =
                         objSet (objSet (objSet metadata ''name'' (JStr name))
                                   ''name_generated_at'' (JStr (toISOString env (now env w'))))
                           ''named_from_message'' (JStr (substring 0 100 userMessage));
                       s2 = s1\<lparr> sessions :=
                              map (\<lambda>x. if s_id x = sessionId
                                        then x\<lparr> s_metadata := Some metadata' \<rparr> else x)
                                  (sessions s1) \<rparr>
                   in broadcastToSession sessionId (SessionNameUpdated sessionId name) s2))))"

definition warningSign :: string where
  \<comment> \<open>the sign that opens the text of a failed turn, as its six UTF-8 bytes\<close>
  "warningSign = [CHR 0xE2, CHR 0x9A, CHR 0xA0, CHR 0xEF, CHR 0xB8, CHR 0x8F]"

definition turnFailed :: "AuthenticatedSocket \<Rightarrow> string \<Rightarrow> 'w state \<Rightarrow> 'w state" where
  \<comment> \<open>the \<^verbatim>\<open>catch\<close> block of \<^verbatim>\<open>handleTextInput\<close>\<close>
  "turnFailed client message s =
    (let errorMsg =
           (if message = [] then ''An error occurred while processing your message''
            else message)
     in s\<lparr> outbox := outbox s @
             [(sock_id client, TextComplete (warningSign @ '' '' @ errorMsg)),
              (sock_id client, ErrorMessage message)] \<rparr>)"

definition settleTurn ::
  "'w env \<Rightarrow> AuthenticatedSocket \<Rightarrow> string \<Rightarrow> string \<Rightarrow> string \<Rightarrow> 'w state \<Rightarrow> 'w state" where
  \<comment> \<open>\<^verbatim>\<open>handleTextInput\<close> from the memory append on, inside its \<^verbatim>\<open>try\<close>\<close>
  "settleTurn env client sessionId input response s =
    (case addMemory env sessionId (Some CONTEXT)
            (''User: '' @ input @ nl @ ''Assistant: '' @ response)
            (Some (JObj [(''timestamp'', JStr (toISOString env (now env (world s))))])) s of
       (Inl e, s') \<Rightarrow> turnFailed client e s'
     | (Inr row, s') \<Rightarrow> autoGenerateSessionName env sessionId input s')"

definition handleTextInput :: "'w env \<Rightarrow> AuthenticatedSocket \<Rightarrow> string \<Rightarrow> 'w state \<Rightarrow> 'w state" where
  "handleTextInput env client text s =
    (case (sock_sessionId client, sock_userId client) of
       (Some sessionId, Some userId) \<Rightarrow>
         if sessionId = [] \<or> userId = [] then
           s\<lparr> outbox := outbox s @ [(sock_id client, ErrorMessage ''Not authenticated'')] \<rparr>
         else
           (let input = trim text;
                needsAgentPlanning = needsComplexProcessing input;
                (r, s1) =
                  (if needsAgentPlanning then handleComplexQuery env sessionId input client s
                   else handleSimpleChat env sessionId input client s)
            in case r of
                 Inl e \<Rightarrow> turnFailed client e s1
               | Inr response \<Rightarrow> settleTurn env client sessionId input response s1)
     | _ \<Rightarrow> s\<lparr> outbox := outbox s @ [(sock_id client, ErrorMessage ''Not authenticated'')] \<rparr>)"

section \<open>The state a step of a plan starts in\<close>


section \<open>An example configuration\<close>

text \<open>
  A configuration with the guardrails enabled and no completion provider, over a world
  that is the clock. Its HTTP tools answer \<open>ok\<close> after 5 ticks; its function tools
  throw after 3.
\<close>

definition exampleEnv :: "int env" where
  "exampleEnv = \<lparr> enabled = True, now = (\<lambda>w. w), toISOString = showInt,
      JSON_parse = (\<lambda>t. if t = ''{}'' then Some (JObj []) else None),
      openai = None, anthropic = None,
      executeHttpTool = (\<lambda>schema parameters w. (Inr (JStr ''ok''), w + 5)),
      executeFunctionTool = (\<lambda>schema parameters w. (Inl ''boom'', w + 3)),
      handleComplexQuery = (\<lambda>sessionId input client s. (Inr ''done'', s)),
      handleSimpleChat = (\<lambda>sessionId input client s. (Inr ''hello'', s)) \<rparr>"

definition emptyState :: "int state" where
  "emptyState = \<lparr> sessions = [], memories = [], tools = [], toolExecutions = [],
      sessionEvents = [], guardrailLogs = [], failing = [], activeSessions = [],
      outbox = [], world = 0 \<rparr>"

definition searchTool :: Tool where
  "searchTool = \<lparr> t_name = ''search'', t_description = ''Search the web'',
      t_schema = [(''type'', JStr ''http''), (''queryParams'', JArr [JStr ''q''])],
      t_isActive = True \<rparr>"

definition withTools :: "int state" where
  "withTools = emptyState\<lparr> tools := [searchTool] \<rparr>"



definition oddSteps :: "json list" where
  \<comment> \<open>steps that \<^verbatim>\<open>JSON.parse\<close> can deliver and the interface \<^verbatim>\<open>AgentStep\<close> does not
      describe: \<^verbatim>\<open>null\<close>, a tool that is a number, parameters that are a string\<close>
  "oddSteps =
     [JNull,
      JObj [(''action'', JStr ''look''), (''tool'', JNum 5)],
      JObj [(''action'', JStr ''search''), (''tool'', JStr ''search''),
            (''parameters'', JStr ''x'')]]"

definition calcTool :: Tool where
  "calcTool = \<lparr> t_name = ''calc'', t_description = ''Evaluate an expression'',
      t_schema = [(''type'', JStr ''function''), (''code'', JStr ''(p) => p.x'')],
      t_isActive = True \<rparr>"

definition withCalc :: "int state" where
  "withCalc = emptyState\<lparr> tools := [calcTool] \<rparr>"

section \<open>What a settled tool execution looks like\<close>

definition settledRow ::
  "string \<Rightarrow> string \<Rightarrow> (string \<times> json) list \<Rightarrow> string + json \<Rightarrow> int \<Rightarrow> int \<Rightarrow> ToolExecution" where
  \<comment> \<open>the row of a call whose tool run gave \<open>r\<close>, started and settled at the two times\<close>
  "settledRow sessionId toolName parameters r startTime endTime =
    \<lparr> te_sessionId = sessionId, te_toolName = toolName, te_input = JObj parameters,
      te_output = (case r of Inl message \<Rightarrow> None | Inr result \<Rightarrow> Some result),
      te_status = (case r of Inl message \<Rightarrow> FAILED | Inr result \<Rightarrow> COMPLETED),
      te_error = (case r of Inl message \<Rightarrow> Some message | Inr result \<Rightarrow> None),
      te_duration = Some (endTime - startTime),
      te_completedAt = Some endTime,
      te_history = [RUNNING, (case r of Inl message \<Rightarrow> FAILED | Inr result \<Rightarrow> COMPLETED)] \<rparr>"

section \<open>What decides the outcome of planning\<close>

definition guardBlocks :: "'w env \<Rightarrow> string \<Rightarrow> bool" where
  \<comment> \<open>one of the three rules of \<^verbatim>\<open>validateInput\<close> matches, the guardrails being enabled\<close>
  "guardBlocks env input =
    (enabled env \<and> (injectionMatch input \<or> 10000 < length input \<or> hasMaliciousContent input))"

definition planPrompt :: "string \<Rightarrow> 'w state \<Rightarrow> string" where
  \<comment> \<open>the system prompt \<^verbatim>\<open>plan\<close> builds for a session: from the active tools by name and
      the context of the session\<close>
  "planPrompt sessionId s =
    buildSystemPrompt (sort_key t_name (filter t_isActive (tools s)))
      (rev (take 50 (orderByCreatedAtDesc
                       (filter (\<lambda>m. m_sessionId m = sessionId) (memories s)))))"

section \<open>An example with a completion provider\<close>

definition providerEnv :: "int env" where
  \<comment> \<open>\<open>exampleEnv\<close> with an OpenAI key: every completion is the text \<^verbatim>\<open>{}\<close>\<close>
  "providerEnv = exampleEnv\<lparr> openai := Some (\<lambda>request w. (Inr (Some ''{}''), w + 1)) \<rparr>"

definition withSession :: "int state" where
  "withSession = emptyState\<lparr> sessions :=
     [\<lparr> s_id = ''s1'', s_userId = ''u1'', s_metadata = Some [] \<rparr>] \<rparr>"

section \<open>Plans as the specification words them\<close>

fun scanBalanced :: "nat \<Rightarrow> string \<Rightarrow> string \<Rightarrow> string option" where
  \<comment> \<open>the depth of nesting, the object read so far (reversed), the text still to read\<close>
  "scanBalanced d acc [] = None"
| "scanBalanced d acc (c # cs) =
     (if c = CHR ''{'' then scanBalanced (Suc d) (c # acc) cs
      else if c = CHR ''}'' then
        (if d \<le> 1 then Some (rev (c # acc)) else scanBalanced (d - 1) (c # acc) cs)
      else scanBalanced d (c # acc) cs)"

definition firstBalancedObject :: "string \<Rightarrow> string option" where
  \<comment> \<open>the spec's words: the first balanced JSON object of the text, from its first
      opening brace to the closing brace that matches it\<close>
  "firstBalancedObject response =
    (case dropWhile (\<lambda>c. c \<noteq> CHR ''{'') response of
       [] \<Rightarrow> None
     | c # cs \<Rightarrow> scanBalanced 1 [c] cs)"

definition wellFormedPlan :: "json \<Rightarrow> bool" where
  \<comment> \<open>a reasoning string and a steps array\<close>
  "wellFormedPlan p =
    (case (jget p ''reasoning'', jget p ''steps'') of
       (Some (JStr r), Some (JArr steps)) \<Rightarrow> True
     | _ \<Rightarrow> False)"

definition singleRespondStep :: "json \<Rightarrow> bool" where
  \<comment> \<open>the steps are one step, of action \<open>respond_to_user\<close> and with no tool\<close>
  "singleRespondStep p =
    (case jget p ''steps'' of
       Some (JArr [step]) \<Rightarrow>
         jget step ''action'' = Some (JStr ''respond_to_user'') \<and> jget step ''tool'' = None
     | _ \<Rightarrow> False)"

section \<open>The memories of a session\<close>

definition sessionMemories :: "string \<Rightarrow> 'w state \<Rightarrow> Memory list" where
  \<comment> \<open>the memories of a session, in the order of the table\<close>
  "sessionMemories sessionId s = filter (\<lambda>m. m_sessionId m = sessionId) (memories s)"

section \<open>An example session with eleven memories\<close>

definition elevenTurns :: "int state" where
  \<comment> \<open>session \<open>s1\<close> with eleven memories, created at the times 1 to 11\<close>
  "elevenTurns = withSession\<lparr> memories :=
     map (\<lambda>(t, c). \<lparr> m_sessionId = ''s1'', m_type = CONTEXT, m_content = c,
                      m_metadata = JObj [], m_createdAt = t \<rparr>)
       [(1, ''turn 01''), (2, ''turn 02''), (3, ''turn 03''), (4, ''turn 04''),
        (5, ''turn 05''), (6, ''turn 06''), (7, ''turn 07''), (8, ''turn 08''),
        (9, ''turn 09''), (10, ''turn 10''), (11, ''turn 11'')] \<rparr>"

section \<open>Words for the naming of a session and the events of a turn\<close>






fun isNameUpdate :: "ws_event \<Rightarrow> bool" where
  "isNameUpdate (SessionNameUpdated sessionId name) = True"
| "isNameUpdate _ = False"

definition client1 :: AuthenticatedSocket where
  "client1 = \<lparr> sock_id = ''sock1'', sock_userId = Some ''u1'', sock_sessionId = Some ''s1'' \<rparr>"

definition connected :: "int state" where
  \<comment> \<open>session \<open>s1\<close> with one socket attached\<close>
  "connected = withSession\<lparr> activeSessions := [(''s1'', [''sock1''])] \<rparr>"


section \<open>Properties of GuardrailsService\<close>

lemma substring_0: "substring 0 n t = take n t"
  by (simp add: substring_def)

lemma blocked_cases:
  "fst (blocked reason logged) = Inr r \<Longrightarrow>
     r = \<lparr> vr_allowed = False, vr_action = BLOCK, vr_maskedInput = None, vr_reason = Some reason \<rparr>"
  by (auto simp: blocked_def split: prod.splits sum.splits)

lemma blocked_log_fails:
  "fst (blocked reason (logGuardrail sid rule a i why s)) = Inl e \<Longrightarrow>
     fails s GuardrailLogCreate \<and> e = storeError"
  by (auto simp: blocked_def logGuardrail_def Let_def split: if_splits)

text \<open>
  Claim C10. \<^verbatim>\<open>validateInput\<close> never masks or rewrites its input. When it returns, the
  result has no \<^verbatim>\<open>maskedInput\<close>, its action is never \<^verbatim>\<open>MASK\<close>: it is \<^verbatim>\<open>ALLOW\<close> when the
  input is allowed and \<^verbatim>\<open>BLOCK\<close> when it is not, and \<^verbatim>\<open>guardrailResult.maskedInput || input\<close>,
  the text both paths of the gateway go on with, is the caller's input. It raises only
  when the write of the audit entry fails.
\<close>

theorem validateInput_never_masks:
  "case fst (validateInput env input sessionId s) of
     Inl e \<Rightarrow> fails s GuardrailLogCreate \<and> e = storeError
   | Inr r \<Rightarrow> vr_maskedInput r = None \<and> vr_action r \<noteq> MASK
              \<and> vr_action r = (if vr_allowed r then ALLOW else BLOCK)
              \<and> maskedOr r input = input"
proof (cases "fst (validateInput env input sessionId s)")
  case (Inl e)
  then have "fails s GuardrailLogCreate \<and> e = storeError"
    by (auto simp: validateInput_def split: if_splits dest: blocked_log_fails)
  with Inl show ?thesis by simp
next
  case (Inr r)
  then have "r = \<lparr> vr_allowed = True, vr_action = ALLOW, vr_maskedInput = None, vr_reason = None \<rparr>
      \<or> (\<exists>reason. r = \<lparr> vr_allowed = False, vr_action = BLOCK, vr_maskedInput = None,
                           vr_reason = Some reason \<rparr>)"
    by (auto simp: validateInput_def split: if_splits dest: blocked_cases)
  then have "vr_maskedInput r = None \<and> vr_action r \<noteq> MASK
      \<and> vr_action r = (if vr_allowed r then ALLOW else BLOCK) \<and> maskedOr r input = input"
    by (auto simp: maskedOr_def)
  with Inr show ?thesis by simp
qed

theorem validateInput_never_masks_witness:
  "fst (validateInput exampleEnv ''what is <script>'' None emptyState)
     = Inr \<lparr> vr_allowed = False, vr_action = BLOCK, vr_maskedInput = None,
             vr_reason = Some ''Malicious content detected'' \<rparr>
   \<and> maskedOr \<lparr> vr_allowed = False, vr_action = BLOCK, vr_maskedInput = None,
               vr_reason = Some ''Malicious content detected'' \<rparr> ''what is <script>''
     = ''what is <script>''"
proof -
  have e: "fst (validateInput exampleEnv ''what is <script>'' None emptyState)
     = Inr \<lparr> vr_allowed = False, vr_action = BLOCK, vr_maskedInput = None,
             vr_reason = Some ''Malicious content detected'' \<rparr>"
    by code_simp
  show ?thesis
    using e validateInput_never_masks
      [where env = exampleEnv and input = "''what is <script>''" and sessionId = None
         and s = emptyState]
    by simp
qed

text \<open>
  Claim C4. With the guardrails enabled, an input that matches one of the prompt-injection
  patterns is blocked with the reason \<open>Potential prompt injection detected\<close>, and exactly
  one audit entry is appended: rule \<open>prompt_injection_detection\<close>, action \<^verbatim>\<open>BLOCK\<close>, and as
  sample the first 500 characters of the input. Nothing is assumed of the length of the
  input or of its other content, so the injection rule comes before the length rule and
  the malicious-content rule. The write of the audit entry is assumed to succeed.
\<close>

theorem injection_blocks_first:
  assumes "enabled env" and "injectionMatch input" and "\<not> fails s GuardrailLogCreate"
  shows "validateInput env input sessionId s =
      (Inr \<lparr> vr_allowed = False, vr_action = BLOCK, vr_maskedInput = None,
              vr_reason = Some ''Potential prompt injection detected'' \<rparr>,
       s\<lparr> guardrailLogs := guardrailLogs s @
            [\<lparr> gl_sessionId = sessionId, gl_rule = ''prompt_injection_detection'',
               gl_action = BLOCK, gl_input = Some (take 500 input),
               gl_reason = ''Prompt injection pattern detected'' \<rparr>] \<rparr>)
    \<and> length (take 500 input) \<le> 500"
  using assms
  by (simp add: validateInput_def blocked_def logGuardrail_def substring_0 Let_def)

theorem injection_blocks_first_witness:
  "enabled exampleEnv \<and> injectionMatch ''jailbreak <script>'' \<and> hasMaliciousContent ''jailbreak <script>''
   \<and> \<not> fails emptyState GuardrailLogCreate
   \<and> validateInput exampleEnv ''jailbreak <script>'' (Some ''s1'') emptyState =
      (Inr \<lparr> vr_allowed = False, vr_action = BLOCK, vr_maskedInput = None,
              vr_reason = Some ''Potential prompt injection detected'' \<rparr>,
       emptyState\<lparr> guardrailLogs := guardrailLogs emptyState @
            [\<lparr> gl_sessionId = Some ''s1'', gl_rule = ''prompt_injection_detection'',
               gl_action = BLOCK, gl_input = Some (take 500 ''jailbreak <script>''),
               gl_reason = ''Prompt injection pattern detected'' \<rparr>] \<rparr>)"
proof -
  have a: "enabled exampleEnv" by (simp add: exampleEnv_def)
  have b: "injectionMatch ''jailbreak <script>''" by code_simp
  have c: "\<not> fails emptyState GuardrailLogCreate" by (simp add: fails_def emptyState_def)
  have d: "hasMaliciousContent ''jailbreak <script>''" by code_simp
  show ?thesis
    using a b c d injection_blocks_first [OF a b c, of "Some ''s1''"] by blast
qed


section \<open>Properties of AgentService.executePlan\<close>





text \<open>
  On an object, which is what the signature of \<^verbatim>\<open>ToolsService.execute\<close> promises, the
  methods on a value of any shape are the methods on an object.
\<close>

lemma executeToolAny_object:
  "executeToolAny env tool (JObj kvs) sid w =
     (case executeTool env tool kvs sid w of (r, kvs', w') \<Rightarrow> (r, JObj kvs', w'))"
  by (simp add: executeToolAny_def executeTool_def Let_def split: prod.splits)

lemma executeAny_object:
  "executeAny env sid t (JObj kvs) s =
     (case execute env sid t kvs s of (r, kvs', s') \<Rightarrow> (r, JObj kvs', s'))"
  by (simp add: executeAny_def execute_def executeToolAny_object Let_def
           split: option.splits prod.splits sum.splits)








text \<open>
  Claim C1 as the specification words it says that \<^verbatim>\<open>executePlan\<close> never raises for any
  plan. The plan it is given is what \<^verbatim>\<open>plan\<close> returned, and that is whatever \<^verbatim>\<open>JSON.parse\<close>
  made of the provider's text. For the text \<^verbatim>\<open>{}\<close> the plan is an object without \<^verbatim>\<open>steps\<close>:
  \<^verbatim>\<open>plan\<close> returns it and \<^verbatim>\<open>executePlan\<close> raises on it. The steps of a plan need not be what
  the interface \<^verbatim>\<open>AgentStep\<close> describes either; as long as they are the elements of an
  array, each of them gets its outcome.
\<close>

theorem executePlan_raises_on_plan_without_steps:
  "parsePlan providerEnv ''{}'' = JObj []
   \<and> (case plan providerEnv ''s1'' ''hello'' (Some []) False withSession of
        (Inr pl, s') \<Rightarrow>
          pl = JObj []
          \<and> fst (executePlan providerEnv ''s1'' pl s') = Inl ''plan.steps is not iterable''
          \<and> snd (executePlan providerEnv ''s1'' pl s') = s'
      | (Inl e, s') \<Rightarrow> False)
   \<and> map_sum id (map (\<lambda>outcome. (oc_success outcome, oc_result outcome)))
        (fst (executePlan exampleEnv ''s1'' (JObj [(''steps'', JArr oddSteps)]) withTools))
      = Inr [(False, JObj [(''error'',
                JStr ''Cannot read properties of null (reading 'tool')'')]),
             (False, JObj [(''error'', JStr ''step.tool.trim is not a function'')]),
             (False, JObj [(''error'',
                JStr (''Cannot create property 'sessionId' on string 'x''
                      @ [CHR 0x27]))])]"
  by code_simp

section \<open>Properties of ToolsService.execute\<close>

lemma execute_active:
  assumes ok: "failing s = []"
    and found: "find (\<lambda>t. t_name t = toolName) (tools s) = Some tool"
    and active: "t_isActive tool"
    and run: "executeTool env tool parameters sessionId (world s) = (r, parameters', w')"
  shows "fst (execute env sessionId toolName parameters s) = r"
    and "toolExecutions (snd (snd (execute env sessionId toolName parameters s))) =
          toolExecutions s @
            [settledRow sessionId toolName parameters r (now env (world s)) (now env w')]"
  using assms
  by (cases r; simp add: execute_def fails_def Let_def settleFailed_def updateExecution_def
        addEvent_def settledRow_def split: prod.splits)+

text \<open>
  Claim C2, as the code has it. A call that names a tool which does not exist or is not
  active raises \<open>Tool "..." not found or inactive\<close> before any row is written: it leaves no
  execution record. A call that names an active tool appends exactly one row. The row is
  created with the status \<^verbatim>\<open>RUNNING\<close> (the status \<^verbatim>\<open>PENDING\<close> is never written) and is updated
  once: to \<^verbatim>\<open>COMPLETED\<close> with the output when the tool run returns, to \<^verbatim>\<open>FAILED\<close> with the
  message when it throws; the call returns or rethrows what the tool run gave. The
  duration is the clock after the tool run minus the clock before it, so it is not
  negative when the clock has not gone back. The store calls are assumed to succeed.
\<close>

theorem execute_records:
  assumes "failing s = []"
  shows "case find (\<lambda>t. t_name t = toolName) (tools s) of
      None \<Rightarrow>
        execute env sessionId toolName parameters s = (Inl (notFound toolName), parameters, s)
    | Some tool \<Rightarrow>
        if \<not> t_isActive tool then
          execute env sessionId toolName parameters s = (Inl (notFound toolName), parameters, s)
        else
          (case executeTool env tool parameters sessionId (world s) of
             (r, parameters', w') \<Rightarrow>
               fst (execute env sessionId toolName parameters s) = r
               \<and> toolExecutions (snd (snd (execute env sessionId toolName parameters s))) =
                   toolExecutions s @
                     [settledRow sessionId toolName parameters r (now env (world s)) (now env w')]
               \<and> (now env (world s) \<le> now env w' \<longrightarrow>
                    (\<exists>d. te_duration (last (toolExecutions
                            (snd (snd (execute env sessionId toolName parameters s))))) = Some d
                         \<and> 0 \<le> d)))"
proof (cases "find (\<lambda>t. t_name t = toolName) (tools s)")
  case None
  with assms show ?thesis by (simp add: execute_def fails_def)
next
  case (Some tool)
  show ?thesis
  proof (cases "t_isActive tool")
    case False
    with Some assms show ?thesis by (simp add: execute_def fails_def)
  next
    case True
    obtain r parameters' w' where run:
      "executeTool env tool parameters sessionId (world s) = (r, parameters', w')"
      by (cases "executeTool env tool parameters sessionId (world s)") auto
    from execute_active [OF assms Some True run] Some True run
    show ?thesis by (simp add: settledRow_def)
  qed
qed

theorem execute_records_witness:
  "failing withTools = []
   \<and> find (\<lambda>t. t_name t = ''nosuch'') (tools withTools) = None
   \<and> execute exampleEnv ''s1'' ''nosuch'' [] withTools = (Inl (notFound ''nosuch''), [], withTools)
   \<and> fst (execute exampleEnv ''s1'' ''search'' [(''q'', JStr ''x'')] withTools) = Inr (JStr ''ok'')
   \<and> toolExecutions (snd (snd (execute exampleEnv ''s1'' ''search'' [(''q'', JStr ''x'')] withTools)))
       = [settledRow ''s1'' ''search'' [(''q'', JStr ''x'')] (Inr (JStr ''ok'')) 0 5]
   \<and> failing withCalc = []
   \<and> fst (execute exampleEnv ''s1'' ''calc'' [] withCalc) = Inl ''boom''
   \<and> toolExecutions (snd (snd (execute exampleEnv ''s1'' ''calc'' [] withCalc)))
       = [settledRow ''s1'' ''calc'' [] (Inl ''boom'') 0 3]"
proof -
  have ok: "failing withTools = []"
    by (simp add: withTools_def emptyState_def)
  have missing: "find (\<lambda>t. t_name t = ''nosuch'') (tools withTools) = None"
    by (simp add: withTools_def emptyState_def searchTool_def)
  have unknown: "execute exampleEnv ''s1'' ''nosuch'' [] withTools
      = (Inl (notFound ''nosuch''), [], withTools)"
    using execute_records
        [OF ok, where toolName = "''nosuch''" and env = exampleEnv and sessionId = "''s1''"
           and parameters = "[]"]
      missing
    by simp
  have found: "find (\<lambda>t. t_name t = ''search'') (tools withTools) = Some searchTool"
    by (simp add: withTools_def emptyState_def searchTool_def)
  have active: "t_isActive searchTool"
    by (simp add: searchTool_def)
  have run: "executeTool exampleEnv searchTool [(''q'', JStr ''x'')] ''s1'' (world withTools)
      = (Inr (JStr ''ok''), [(''q'', JStr ''x''), (''sessionId'', JStr ''s1'')], 5)"
    by code_simp
  have t0: "now exampleEnv (world withTools) = 0"
    by (simp add: withTools_def emptyState_def exampleEnv_def)
  have t1: "now exampleEnv 5 = 5"
    by (simp add: exampleEnv_def)
  have none: "toolExecutions withTools = []"
    by (simp add: withTools_def emptyState_def)
  have completed:
    "fst (execute exampleEnv ''s1'' ''search'' [(''q'', JStr ''x'')] withTools) = Inr (JStr ''ok'')
     \<and> toolExecutions (snd (snd (execute exampleEnv ''s1'' ''search'' [(''q'', JStr ''x'')] withTools)))
         = [settledRow ''s1'' ''search'' [(''q'', JStr ''x'')] (Inr (JStr ''ok'')) 0 5]"
    using execute_records
        [OF ok, where toolName = "''search''" and env = exampleEnv and sessionId = "''s1''"
           and parameters = "[(''q'', JStr ''x'')]"]
      found active run t0 t1 none
    by simp
  have ok': "failing withCalc = []"
    by (simp add: withCalc_def emptyState_def)
  have found': "find (\<lambda>t. t_name t = ''calc'') (tools withCalc) = Some calcTool"
    by (simp add: withCalc_def emptyState_def calcTool_def)
  have active': "t_isActive calcTool"
    by (simp add: calcTool_def)
  have run': "executeTool exampleEnv calcTool [] ''s1'' (world withCalc)
      = (Inl ''boom'', [(''sessionId'', JStr ''s1'')], 3)"
    by code_simp
  have t0': "now exampleEnv (world withCalc) = 0"
    by (simp add: withCalc_def emptyState_def exampleEnv_def)
  have t1': "now exampleEnv 3 = 3"
    by (simp add: exampleEnv_def)
  have none': "toolExecutions withCalc = []"
    by (simp add: withCalc_def emptyState_def)
  have failed:
    "fst (execute exampleEnv ''s1'' ''calc'' [] withCalc) = Inl ''boom''
     \<and> toolExecutions (snd (snd (execute exampleEnv ''s1'' ''calc'' [] withCalc)))
         = [settledRow ''s1'' ''calc'' [] (Inl ''boom'') 0 3]"
    using execute_records
        [OF ok', where toolName = "''calc''" and env = exampleEnv and sessionId = "''s1''"
           and parameters = "[]"]
      found' active' run' t0' t1' none'
    by simp
  from ok missing unknown completed ok' failed show ?thesis by blast
qed

theorem execute_unknown_tool_leaves_no_record:
  "fst (execute exampleEnv ''s1'' ''nosuch'' [] withTools) = Inl (notFound ''nosuch'')
   \<and> toolExecutions (snd (snd (execute exampleEnv ''s1'' ''nosuch'' [] withTools))) = []
   \<and> map te_history (toolExecutions (snd (snd (execute exampleEnv ''s1'' ''search'' [] withTools))))
       = [[RUNNING, COMPLETED]]"
  by code_simp

section \<open>Properties of AgentService.plan\<close>

lemma validateInput_allowed:
  assumes "\<not> guardBlocks env input"
  shows "validateInput env input sid s =
    (Inr \<lparr> vr_allowed = True, vr_action = ALLOW, vr_maskedInput = None, vr_reason = None \<rparr>, s)"
  using assms by (auto simp: validateInput_def guardBlocks_def)

lemma validateInput_blocked:
  assumes "guardBlocks env input" and "\<not> fails s GuardrailLogCreate"
  shows "\<exists>reason s'. validateInput env input sid s =
    (Inr \<lparr> vr_allowed = False, vr_action = BLOCK, vr_maskedInput = None,
            vr_reason = Some reason \<rparr>, s')"
  using assms
  by (auto simp: validateInput_def guardBlocks_def blocked_def logGuardrail_def Let_def)

lemma plan_blocked:
  assumes "guardBlocks env userInput" and "\<not> fails s GuardrailLogCreate"
  shows "\<exists>reason. fst (plan env sessionId userInput ctx storeMemory s)
           = Inl (''Input blocked by guardrails: '' @ reason)"
proof -
  obtain reason s' where "validateInput env userInput (Some sessionId) s =
    (Inr \<lparr> vr_allowed = False, vr_action = BLOCK, vr_maskedInput = None,
            vr_reason = Some reason \<rparr>, s')"
    using validateInput_blocked [OF assms] by blast
  then have "fst (plan env sessionId userInput ctx storeMemory s)
      = Inl (''Input blocked by guardrails: '' @ reason)"
    by (simp add: plan_def templ_def)
  then show ?thesis by blast
qed

lemma plan_allowed:
  assumes ok: "failing s = []" and allowed: "\<not> guardBlocks env userInput"
  shows "fst (plan env sessionId userInput ctx storeMemory s) =
    (case find (\<lambda>x. s_id x = sessionId) (sessions s) of
       None \<Rightarrow> Inl ''Session not found''
     | Some session \<Rightarrow>
         (case generatePlan env userInput (planPrompt sessionId s) ctx (world s) of
            (Inl e, w') \<Rightarrow> Inl e
          | (Inr response, w') \<Rightarrow>
              if storeMemory then
                (case planIdOf (parsePlan env response) of
                   Inl e \<Rightarrow> Inl e
                 | Inr planId \<Rightarrow> Inr (parsePlan env response))
              else Inr (parsePlan env response)))"
  using ok
  by (simp add: plan_def validateInput_allowed [OF allowed] maskedOr_def findSession_def
        getContextDefault_def getContext_def findAll_def fails_def planPrompt_def addEvent_def
        addMemory_def Let_def
      split: option.splits prod.splits sum.splits)

lemma generatePlan_no_provider:
  assumes "openai env = None" and "anthropic env = None"
  shows "generatePlan env userInput systemPrompt ctx w = (Inl ''No LLM provider configured'', w)"
  using assms by (simp add: generatePlan_def)

text \<open>
  Claim C3, as the code has it. A missing completion provider is one of several reasons
  for \<^verbatim>\<open>plan\<close> to raise. With the store calls succeeding: \<^verbatim>\<open>plan\<close> raises when no provider
  is configured; it raises \<open>Input blocked by guardrails: ...\<close> when a rule of the guardrails
  matches the input; it raises \<open>Session not found\<close> when the input is allowed and the
  session does not exist; it rethrows the error of the provider's call; and when the
  input is allowed, the session exists and the provider answers, it returns what
  \<^verbatim>\<open>parsePlan\<close> makes of the answer (with \<^verbatim>\<open>storeMemory\<close> set, provided \<^verbatim>\<open>plan.steps.length\<close>
  can be read).
\<close>

theorem plan_outcomes:
  assumes ok: "failing s = []"
  shows
   "(openai env = None \<and> anthropic env = None
       \<longrightarrow> (\<exists>e. fst (plan env sessionId userInput ctx storeMemory s) = Inl e))
    \<and> (guardBlocks env userInput
       \<longrightarrow> (\<exists>reason. fst (plan env sessionId userInput ctx storeMemory s)
                        = Inl (''Input blocked by guardrails: '' @ reason)))
    \<and> (\<not> guardBlocks env userInput \<and> find (\<lambda>x. s_id x = sessionId) (sessions s) = None
       \<longrightarrow> fst (plan env sessionId userInput ctx storeMemory s) = Inl ''Session not found'')
    \<and> (\<forall>session e w'.
          \<not> guardBlocks env userInput
          \<and> find (\<lambda>x. s_id x = sessionId) (sessions s) = Some session
          \<and> generatePlan env userInput (planPrompt sessionId s) ctx (world s) = (Inl e, w')
       \<longrightarrow> fst (plan env sessionId userInput ctx storeMemory s) = Inl e)
    \<and> (\<forall>session response w'.
          \<not> guardBlocks env userInput
          \<and> find (\<lambda>x. s_id x = sessionId) (sessions s) = Some session
          \<and> generatePlan env userInput (planPrompt sessionId s) ctx (world s)
              = (Inr response, w')
          \<and> (storeMemory \<longrightarrow> (\<exists>planId. planIdOf (parsePlan env response) = Inr planId))
       \<longrightarrow> fst (plan env sessionId userInput ctx storeMemory s)
             = Inr (parsePlan env response))"
proof (intro conjI allI impI)
  have nofail: "\<not> fails s GuardrailLogCreate"
    using ok by (simp add: fails_def)
  {
    assume none: "openai env = None \<and> anthropic env = None"
    show "\<exists>e. fst (plan env sessionId userInput ctx storeMemory s) = Inl e"
    proof (cases "guardBlocks env userInput")
      case True
      from plan_blocked [OF True nofail] show ?thesis by blast
    next
      case False
      show ?thesis
        using none
        by (simp add: plan_allowed [OF ok False] generatePlan_no_provider split: option.splits)
    qed
  }
  {
    assume "guardBlocks env userInput"
    from plan_blocked [OF this nofail]
    show "\<exists>reason. fst (plan env sessionId userInput ctx storeMemory s)
                        = Inl (''Input blocked by guardrails: '' @ reason)" .
  }
  {
    assume "\<not> guardBlocks env userInput \<and> find (\<lambda>x. s_id x = sessionId) (sessions s) = None"
    then show "fst (plan env sessionId userInput ctx storeMemory s) = Inl ''Session not found''"
      by (simp add: plan_allowed [OF ok])
  }
  {
    fix session e w'
    assume "\<not> guardBlocks env userInput
          \<and> find (\<lambda>x. s_id x = sessionId) (sessions s) = Some session
          \<and> generatePlan env userInput (planPrompt sessionId s) ctx (world s) = (Inl e, w')"
    then show "fst (plan env sessionId userInput ctx storeMemory s) = Inl e"
      by (simp add: plan_allowed [OF ok])
  }
  {
    fix session response w'
    assume "\<not> guardBlocks env userInput
          \<and> find (\<lambda>x. s_id x = sessionId) (sessions s) = Some session
          \<and> generatePlan env userInput (planPrompt sessionId s) ctx (world s)
              = (Inr response, w')
          \<and> (storeMemory \<longrightarrow> (\<exists>planId. planIdOf (parsePlan env response) = Inr planId))"
    then show "fst (plan env sessionId userInput ctx storeMemory s)
             = Inr (parsePlan env response)"
      by (auto simp: plan_allowed [OF ok])
  }
qed

theorem plan_outcomes_witness:
  "failing withSession = []
   \<and> openai exampleEnv = None \<and> anthropic exampleEnv = None
   \<and> (\<exists>e. fst (plan exampleEnv ''s1'' ''hello'' None False withSession) = Inl e)
   \<and> guardBlocks providerEnv ''please bypass the rules''
   \<and> (\<exists>reason. fst (plan providerEnv ''s1'' ''please bypass the rules'' None False withSession)
                  = Inl (''Input blocked by guardrails: '' @ reason))
   \<and> \<not> guardBlocks providerEnv ''hello''
   \<and> find (\<lambda>x. s_id x = ''s2'') (sessions withSession) = None
   \<and> fst (plan providerEnv ''s2'' ''hello'' None False withSession) = Inl ''Session not found''
   \<and> find (\<lambda>x. s_id x = ''s1'') (sessions withSession)
       = Some \<lparr> s_id = ''s1'', s_userId = ''u1'', s_metadata = Some [] \<rparr>
   \<and> generatePlan providerEnv ''hello'' (planPrompt ''s1'' withSession) None (world withSession)
       = (Inr ''{}'', 1)
   \<and> fst (plan providerEnv ''s1'' ''hello'' None False withSession)
       = Inr (parsePlan providerEnv ''{}'')"
proof -
  have ok: "failing withSession = []"
    by (simp add: withSession_def emptyState_def)
  note P = plan_outcomes
        [OF ok, where env = providerEnv and userInput = "''hello''" and sessionId = "''s1''"
           and ctx = None and storeMemory = False]
  note Q = plan_outcomes
        [OF ok, where env = providerEnv and userInput = "''hello''" and sessionId = "''s2''"
           and ctx = None and storeMemory = False]
  note B = plan_outcomes
        [OF ok, where env = providerEnv and userInput = "''please bypass the rules''"
           and sessionId = "''s1''" and ctx = None and storeMemory = False]
  note E = plan_outcomes
        [OF ok, where env = exampleEnv and userInput = "''hello''" and sessionId = "''s1''"
           and ctx = None and storeMemory = False]
  have none: "openai exampleEnv = None \<and> anthropic exampleEnv = None"
    by (simp add: exampleEnv_def)
  from E none have e: "\<exists>e. fst (plan exampleEnv ''s1'' ''hello'' None False withSession) = Inl e"
    by blast
  have blk: "guardBlocks providerEnv ''please bypass the rules''"
    by code_simp
  from B blk have b': "\<exists>reason.
      fst (plan providerEnv ''s1'' ''please bypass the rules'' None False withSession)
        = Inl (''Input blocked by guardrails: '' @ reason)"
    by blast
  have a: "\<not> guardBlocks providerEnv ''hello''"
    by code_simp
  have missing: "find (\<lambda>x. s_id x = ''s2'') (sessions withSession) = None"
    by (simp add: withSession_def emptyState_def)
  from Q a missing
  have q: "fst (plan providerEnv ''s2'' ''hello'' None False withSession) = Inl ''Session not found''"
    by blast
  have b: "find (\<lambda>x. s_id x = ''s1'') (sessions withSession)
       = Some \<lparr> s_id = ''s1'', s_userId = ''u1'', s_metadata = Some [] \<rparr>"
    by (simp add: withSession_def emptyState_def)
  have c: "generatePlan providerEnv ''hello'' (planPrompt ''s1'' withSession) None (world withSession)
       = (Inr ''{}'', 1)"
    by (simp add: generatePlan_def providerEnv_def exampleEnv_def chatText_def withSession_def
          emptyState_def)
  from P a b c
  have p: "fst (plan providerEnv ''s1'' ''hello'' None False withSession)
       = Inr (parsePlan providerEnv ''{}'')"
    by blast
  from ok none e blk b' a missing q b c p show ?thesis by blast
qed

theorem plan_raises_with_provider_configured:
  "(case openai providerEnv of None \<Rightarrow> False | Some call \<Rightarrow> True)
   \<and> fst (plan providerEnv ''s1'' ''jailbreak'' None False withSession)
       = Inl ''Input blocked by guardrails: Potential prompt injection detected''
   \<and> fst (plan providerEnv ''s2'' ''hello'' None False withSession) = Inl ''Session not found''"
  by code_simp

section \<open>Properties of AgentService.parsePlan\<close>

lemma dropWhile_first:
  assumes "dropWhile P xs = y # ys"
  shows "\<exists>pre. xs = pre @ y # ys \<and> (\<forall>x\<in>set pre. P x) \<and> \<not> P y"
proof -
  have "takeWhile P xs @ dropWhile P xs = xs" by simp
  then have "xs = takeWhile P xs @ y # ys" using assms by simp
  moreover have "\<not> P (hd (dropWhile P xs))"
    using assms by (metis hd_dropWhile list.distinct(1))
  then have "\<not> P y" using assms by simp
  moreover have "\<forall>x\<in>set (takeWhile P xs). P x"
    by (auto dest: set_takeWhileD)
  ultimately show ?thesis by blast
qed

lemma jsonMatch_Some:
  assumes "jsonMatch response = Some m"
  shows "\<exists>pre body post. response = pre @ m @ post \<and> m = CHR ''{'' # body @ [CHR ''}'']
           \<and> CHR ''{'' \<notin> set pre \<and> CHR ''}'' \<notin> set post"
proof -
  let ?P = "\<lambda>c. c \<noteq> CHR ''{''" and ?Q = "\<lambda>c. c \<noteq> CHR ''}''"
  from assms obtain c body0 where dw: "dropWhile ?P response = c # body0"
    and close: "CHR ''}'' \<in> set body0"
    and m: "m = c # rev (dropWhile ?Q (rev body0))"
    by (auto simp: jsonMatch_def split: list.splits if_splits)
  from dropWhile_first [OF dw] obtain pre where resp: "response = pre @ c # body0"
    and pre: "\<forall>x\<in>set pre. x \<noteq> CHR ''{''" and c: "c = CHR ''{''"
    by auto
  from close have "dropWhile ?Q (rev body0) \<noteq> []"
    by (simp add: dropWhile_eq_Nil_conv)
  then obtain y ys where dq: "dropWhile ?Q (rev body0) = y # ys"
    by (cases "dropWhile ?Q (rev body0)") auto
  from dropWhile_first [OF dq] obtain tsop where rb: "rev body0 = tsop @ y # ys"
    and tsop: "\<forall>x\<in>set tsop. x \<noteq> CHR ''}''" and y: "y = CHR ''}''"
    by auto
  from rb have "rev (rev body0) = rev (tsop @ y # ys)" by simp
  then have body0: "body0 = rev ys @ [y] @ rev tsop" by simp
  have mm: "m = CHR ''{'' # rev ys @ [CHR ''}'']"
    using m dq c y by simp
  have "response = pre @ m @ rev tsop"
    by (simp add: resp body0 mm c y)
  moreover have "CHR ''{'' \<notin> set pre" using pre by blast
  moreover have "CHR ''}'' \<notin> set (rev tsop)" using tsop by auto
  ultimately show ?thesis using mm by blast
qed

lemma jsonMatch_None:
  assumes "jsonMatch response = None"
  shows "\<not> (\<exists>pre body post. response = pre @ CHR ''{'' # body @ CHR ''}'' # post)"
proof
  let ?P = "\<lambda>c. c \<noteq> CHR ''{''"
  assume "\<exists>pre body post. response = pre @ CHR ''{'' # body @ CHR ''}'' # post"
  then obtain pre body post where r: "response = pre @ CHR ''{'' # body @ CHR ''}'' # post"
    by blast
  have "\<exists>c body0. dropWhile ?P response = c # body0 \<and> CHR ''}'' \<in> set body0"
  proof (cases "\<forall>x\<in>set pre. ?P x")
    case True
    then have "dropWhile ?P response = CHR ''{'' # body @ CHR ''}'' # post"
      using r by (simp add: dropWhile_append)
    then show ?thesis by simp
  next
    case False
    then have "dropWhile ?P response = dropWhile ?P pre @ CHR ''{'' # body @ CHR ''}'' # post"
      using r by (simp add: dropWhile_append)
    moreover have "dropWhile ?P pre \<noteq> []"
      using False by (simp add: dropWhile_eq_Nil_conv)
    ultimately show ?thesis
      by (cases "dropWhile ?P pre") auto
  qed
  with assms show False
    by (auto simp: jsonMatch_def split: list.splits if_splits)
qed

text \<open>
  Claim C5, as the code has it. \<^verbatim>\<open>parsePlan\<close> does not look for a balanced object: it takes
  the text from the first opening brace of the response to its last closing brace and
  gives it to \<^verbatim>\<open>JSON.parse\<close>. When the response has no opening brace with a closing brace
  after it, the result is the fallback of reasoning \<open>Failed to parse plan\<close>; when
  \<^verbatim>\<open>JSON.parse\<close> throws, the fallback of reasoning \<open>Error parsing plan\<close>. Both fallbacks are a
  reasoning string and one step, of action \<open>respond_to_user\<close> and with no tool. In every
  other case the result is what \<^verbatim>\<open>JSON.parse\<close> returned, as it is.
\<close>

theorem parsePlan_span:
  "(case jsonMatch response of
      None \<Rightarrow>
        parsePlan env response = failedPlan
        \<and> \<not> (\<exists>pre body post. response = pre @ CHR ''{'' # body @ CHR ''}'' # post)
    | Some m \<Rightarrow>
        (\<exists>pre body post. response = pre @ m @ post \<and> m = CHR ''{'' # body @ [CHR ''}'']
            \<and> CHR ''{'' \<notin> set pre \<and> CHR ''}'' \<notin> set post)
        \<and> parsePlan env response
            = (case JSON_parse env m of None \<Rightarrow> errorPlan | Some v \<Rightarrow> v))
   \<and> wellFormedPlan failedPlan \<and> singleRespondStep failedPlan
   \<and> wellFormedPlan errorPlan \<and> singleRespondStep errorPlan"
proof -
  have shape: "wellFormedPlan failedPlan \<and> singleRespondStep failedPlan
      \<and> wellFormedPlan errorPlan \<and> singleRespondStep errorPlan"
    by (simp add: wellFormedPlan_def singleRespondStep_def failedPlan_def errorPlan_def
          respondToUser_def)
  show ?thesis
  proof (cases "jsonMatch response")
    case None
    with jsonMatch_None [OF None] shape show ?thesis
      by (simp add: parsePlan_def)
  next
    case (Some m)
    with jsonMatch_Some [OF Some] shape show ?thesis
      by (simp add: parsePlan_def)
  qed
qed

theorem parsePlan_span_witness:
  \<open>jsonMatch ''Plan: {"steps": []} (use {} for no parameters)'' = Some ''{"steps": []} (use {}''
   \<and> JSON_parse exampleEnv ''{"steps": []} (use {}'' = None
   \<and> parsePlan exampleEnv ''Plan: {"steps": []} (use {} for no parameters)'' = errorPlan\<close>
proof -
  have a: \<open>jsonMatch ''Plan: {"steps": []} (use {} for no parameters)''
      = Some ''{"steps": []} (use {}''\<close>
    by code_simp
  have b: \<open>JSON_parse exampleEnv ''{"steps": []} (use {}'' = None\<close>
    by (simp add: exampleEnv_def)
  show ?thesis
    using parsePlan_span
        [where response = \<open>''Plan: {"steps": []} (use {} for no parameters)''\<close>
           and env = exampleEnv]
      a b
    by simp
qed

theorem parsePlan_not_first_balanced_object:
  \<open>jsonMatch ''Plan: {"steps": []} (use {} for no parameters)'' = Some ''{"steps": []} (use {}''
   \<and> firstBalancedObject ''Plan: {"steps": []} (use {} for no parameters)''
       = Some ''{"steps": []}''
   \<and> parsePlan exampleEnv ''{}'' = JObj []
   \<and> \<not> wellFormedPlan (parsePlan exampleEnv ''{}'')\<close>
  by code_simp

section \<open>The context in the planning prompt\<close>

lemma window_of_sorted:
  assumes "sorted_wrt (<) (map m_createdAt ms)"
  shows "rev (take 50 (orderByCreatedAtDesc ms)) = drop (length ms - 50) ms"
proof -
  have "sorted (map m_createdAt ms)"
    using assms by (rule strict_sorted_imp_sorted)
  then have "sort_key m_createdAt ms = ms"
    by (rule sort_key_id_if_sorted)
  then show ?thesis
    by (simp add: orderByCreatedAtDesc_def rev_take)
qed

lemma last_not_in_first_ten:
  assumes "distinct (map f ms)" and "10 < length ms"
  shows "last ms \<notin> set (take 10 (drop (length ms - 50) ms))"
proof
  let ?n = "length ms" and ?k = "length ms - 50"
  assume "last ms \<in> set (take 10 (drop ?k ms))"
  then obtain j where j: "j < length (take 10 (drop ?k ms))"
    and eq: "take 10 (drop ?k ms) ! j = last ms"
    by (auto simp: in_set_conv_nth)
  from j have j10: "j < 10" and jk: "?k + j < ?n" by auto
  from eq j have at: "ms ! (?k + j) = last ms" by simp
  have ne: "ms \<noteq> []" using assms(2) by auto
  then have "last ms = ms ! (?n - 1)" by (rule last_conv_nth)
  with at have "ms ! (?k + j) = ms ! (?n - 1)" by simp
  then have same: "map f ms ! (?k + j) = map f ms ! (?n - 1)"
    using jk ne by simp
  have b1: "?k + j < length (map f ms)" and b2: "?n - 1 < length (map f ms)"
    using jk ne by simp_all
  have "?k + j = ?n - 1"
    using nth_eq_iff_index_eq [OF assms(1) b1 b2] same by blast
  with j10 assms(2) show False by arith
qed

text \<open>
  Claim C7 says that the planning prompt lists the ten most recent memories of the
  session. What the code lists: \<^verbatim>\<open>getContext\<close> returns the latest fifty memories in
  chronological order, oldest first, and \<^verbatim>\<open>buildSystemPrompt\<close> takes \<^verbatim>\<open>memories.slice(0, 10)\<close>
  of that list under the name \<^verbatim>\<open>recentMemories\<close>: the ten oldest of the window. For a
  session with more than ten memories, created at increasing times, the most recent
  memory is therefore never in the prompt.
\<close>

theorem planning_context_is_oldest_of_window:
  assumes "\<not> fails s MemoryFindMany"
    and "sorted_wrt (<) (map m_createdAt (sessionMemories sessionId s))"
    and "10 < length (sessionMemories sessionId s)"
  shows "getContextDefault sessionId s
      = Inr (drop (length (sessionMemories sessionId s) - 50) (sessionMemories sessionId s))
    \<and> recentMemoriesOf
        (drop (length (sessionMemories sessionId s) - 50) (sessionMemories sessionId s))
      = take 10
          (drop (length (sessionMemories sessionId s) - 50) (sessionMemories sessionId s))
    \<and> last (sessionMemories sessionId s)
        \<notin> set (recentMemoriesOf
                 (drop (length (sessionMemories sessionId s) - 50)
                    (sessionMemories sessionId s)))"
proof -
  let ?ms = "sessionMemories sessionId s"
  have "distinct (map m_createdAt ?ms)"
    using assms(2) by (simp add: strict_sorted_iff)
  from last_not_in_first_ten [OF this assms(3)]
  have "last ?ms \<notin> set (take 10 (drop (length ?ms - 50) ?ms))" .
  moreover have "getContextDefault sessionId s = Inr (drop (length ?ms - 50) ?ms)"
    using assms(1) window_of_sorted [OF assms(2)]
    by (simp add: getContextDefault_def getContext_def sessionMemories_def)
  ultimately show ?thesis
    by (simp add: recentMemoriesOf_def)
qed


text \<open>
  A session with eleven memories: the prompt lists turn 01 to turn 10 and leaves out
  turn 11, the latest.
\<close>

theorem planning_prompt_omits_latest_memory:
  "\<not> fails elevenTurns MemoryFindMany
   \<and> sorted_wrt (<) (map m_createdAt (sessionMemories ''s1'' elevenTurns))
   \<and> 10 < length (sessionMemories ''s1'' elevenTurns)
   \<and> getContextDefault ''s1'' elevenTurns = Inr (memories elevenTurns)
   \<and> map m_content (memories elevenTurns)
       = [''turn 01'', ''turn 02'', ''turn 03'', ''turn 04'', ''turn 05'', ''turn 06'',
          ''turn 07'', ''turn 08'', ''turn 09'', ''turn 10'', ''turn 11'']
   \<and> m_content (last (memories elevenTurns)) = ''turn 11''
   \<and> last (memories elevenTurns) \<notin> set (recentMemoriesOf (memories elevenTurns))
   \<and> planPrompt ''s1'' elevenTurns
       = systemPromptHead @ ''No tools available'' @ systemPromptMiddle
         @ joinWith nl [''- turn 01'', ''- turn 02'', ''- turn 03'', ''- turn 04'', ''- turn 05'',
                        ''- turn 06'', ''- turn 07'', ''- turn 08'', ''- turn 09'', ''- turn 10'']
         @ systemPromptTail"
proof -
  have ok: "\<not> fails elevenTurns MemoryFindMany"
    by (simp add: fails_def elevenTurns_def withSession_def emptyState_def)
  have own: "sessionMemories ''s1'' elevenTurns = memories elevenTurns"
    by (simp add: sessionMemories_def elevenTurns_def)
  have inc: "sorted_wrt (<) (map m_createdAt (sessionMemories ''s1'' elevenTurns))"
    unfolding own by (simp add: elevenTurns_def)
  have many: "10 < length (sessionMemories ''s1'' elevenTurns)"
    unfolding own by (simp add: elevenTurns_def)
  have short: "length (memories elevenTurns) - 50 = 0"
    by (simp add: elevenTurns_def)
  note G = planning_context_is_oldest_of_window [OF ok inc many]
  from G have ctx: "getContextDefault ''s1'' elevenTurns = Inr (memories elevenTurns)"
    unfolding own short drop_0 by blast
  from G have latest: "last (memories elevenTurns) \<notin> set (recentMemoriesOf (memories elevenTurns))"
    unfolding own short drop_0 by blast
  from ctx have window: "rev (take 50 (orderByCreatedAtDesc
      (filter (\<lambda>m. m_sessionId m = ''s1'') (memories elevenTurns)))) = memories elevenTurns"
    by (simp add: getContextDefault_def getContext_def split: if_splits)
  have all: "map m_content (memories elevenTurns)
       = [''turn 01'', ''turn 02'', ''turn 03'', ''turn 04'', ''turn 05'', ''turn 06'',
          ''turn 07'', ''turn 08'', ''turn 09'', ''turn 10'', ''turn 11'']"
    by (simp add: elevenTurns_def)
  have eleventh: "m_content (last (memories elevenTurns)) = ''turn 11''"
    by (simp add: elevenTurns_def)
  have recent: "map (\<lambda>m. ''- '' @ m_content m) (recentMemoriesOf (memories elevenTurns))
       = [''- turn 01'', ''- turn 02'', ''- turn 03'', ''- turn 04'', ''- turn 05'',
          ''- turn 06'', ''- turn 07'', ''- turn 08'', ''- turn 09'', ''- turn 10'']"
    by (simp add: elevenTurns_def recentMemoriesOf_def)
  have none: "tools elevenTurns = []"
    by (simp add: elevenTurns_def withSession_def emptyState_def)
  have prompt: "planPrompt ''s1'' elevenTurns
       = systemPromptHead @ ''No tools available'' @ systemPromptMiddle
         @ joinWith nl [''- turn 01'', ''- turn 02'', ''- turn 03'', ''- turn 04'', ''- turn 05'',
                        ''- turn 06'', ''- turn 07'', ''- turn 08'', ''- turn 09'', ''- turn 10'']
         @ systemPromptTail"
    unfolding planPrompt_def buildSystemPrompt_def Let_def none window recent
    by simp
  from ok inc many ctx all eleventh latest prompt show ?thesis by blast
qed


section \<open>Properties of the naming of a session\<close>

















section \<open>Properties of the settlement of a turn\<close>

lemma naming_emits_updates:
  "\<exists>news. outbox (autoGenerateSessionName env sessionId message s) = outbox s @ news
          \<and> list_all (\<lambda>e. isNameUpdate (snd e)) news"
proof (cases "outbox (autoGenerateSessionName env sessionId message s) = outbox s")
  case True
  then show ?thesis by simp
next
  case False
  then obtain name s2 where
    "autoGenerateSessionName env sessionId message s
       = broadcastToSession sessionId (SessionNameUpdated sessionId name) s2"
    and "outbox s2 = outbox s"
    by (auto simp: autoGenerateSessionName_def Let_def
             split: sum.splits option.splits if_splits prod.splits)
  then show ?thesis
    by (auto simp: broadcastToSession_def list_all_iff split: option.splits)
qed

lemma settleTurn_memory_ok:
  assumes "\<not> fails s MemoryCreate"
  shows "\<exists>news. outbox (settleTurn env client sessionId input response s) = outbox s @ news
          \<and> list_all (\<lambda>e. isNameUpdate (snd e)) news"
proof -
  obtain row s' where add: "addMemory env sessionId (Some CONTEXT)
            (''User: '' @ input @ nl @ ''Assistant: '' @ response)
            (Some (JObj [(''timestamp'', JStr (toISOString env (now env (world s))))])) s
          = (Inr row, s')" and out: "outbox s' = outbox s"
    using assms by (simp add: addMemory_def Let_def)
  have "settleTurn env client sessionId input response s
      = autoGenerateSessionName env sessionId input s'"
    unfolding settleTurn_def add by simp
  with naming_emits_updates [of env sessionId input s'] out show ?thesis by simp
qed

lemma settleTurn_memory_fails:
  assumes "fails s MemoryCreate"
  shows "settleTurn env client sessionId input response s =
     s\<lparr> outbox := outbox s @
          [(sock_id client, TextComplete (warningSign @ '' '' @ storeError)),
           (sock_id client, ErrorMessage storeError)] \<rparr>"
  using assms
  by (simp add: settleTurn_def addMemory_def turnFailed_def storeError_def Let_def)

lemma handleTextInput_settles:
  assumes "sock_sessionId client = Some sessionId" and "sock_userId client = Some userId"
    and "sessionId \<noteq> []" and "userId \<noteq> []"
    and "(if needsComplexProcessing (trim text)
          then handleComplexQuery env sessionId (trim text) client s
          else handleSimpleChat env sessionId (trim text) client s) = (Inr response, s1)"
  shows "handleTextInput env client text s = settleTurn env client sessionId (trim text) response s1"
  using assms by (simp add: handleTextInput_def Let_def)

text \<open>
  Claim C8, as the code has it. Take a turn of an authenticated socket whose path has
  returned a response. When the memory append succeeds, nothing that happens in the
  naming of the session surfaces: whatever store call or provider call fails there, all
  the turn emits from then on are \<^verbatim>\<open>session_name_updated\<close> events. When the memory append
  fails, the failure is not swallowed: the \<^verbatim>\<open>catch\<close> block of \<^verbatim>\<open>handleTextInput\<close> emits a
  \<^verbatim>\<open>text_complete\<close> event with the warning text and an \<^verbatim>\<open>error\<close> event, and the naming is not
  run.
\<close>

theorem turn_settlement:
  assumes "sock_sessionId client = Some sessionId" and "sock_userId client = Some userId"
    and "sessionId \<noteq> []" and "userId \<noteq> []"
    and "(if needsComplexProcessing (trim text)
          then handleComplexQuery env sessionId (trim text) client s
          else handleSimpleChat env sessionId (trim text) client s) = (Inr response, s1)"
  shows "(\<not> fails s1 MemoryCreate \<longrightarrow>
            (\<exists>news. outbox (handleTextInput env client text s) = outbox s1 @ news
                    \<and> list_all (\<lambda>e. isNameUpdate (snd e)) news))
       \<and> (fails s1 MemoryCreate \<longrightarrow>
            handleTextInput env client text s =
              s1\<lparr> outbox := outbox s1 @
                    [(sock_id client, TextComplete (warningSign @ '' '' @ storeError)),
                     (sock_id client, ErrorMessage storeError)] \<rparr>)"
  using handleTextInput_settles [OF assms] settleTurn_memory_ok settleTurn_memory_fails
  by auto

theorem turn_settlement_witness:
  "sock_sessionId client1 = Some ''s1'' \<and> sock_userId client1 = Some ''u1''
   \<and> (if needsComplexProcessing (trim ''how do I reset my password'')
        then handleComplexQuery exampleEnv ''s1'' (trim ''how do I reset my password'') client1
               (connected\<lparr> failing := [SessionUpdate] \<rparr>)
        else handleSimpleChat exampleEnv ''s1'' (trim ''how do I reset my password'') client1
               (connected\<lparr> failing := [SessionUpdate] \<rparr>))
       = (Inr ''hello'', connected\<lparr> failing := [SessionUpdate] \<rparr>)
   \<and> \<not> fails (connected\<lparr> failing := [SessionUpdate] \<rparr>) MemoryCreate
   \<and> fails (connected\<lparr> failing := [SessionUpdate] \<rparr>) SessionUpdate
   \<and> isSubstantiveMessage ''how do I reset my password''
   \<and> (\<exists>news. outbox (handleTextInput exampleEnv client1 ''how do I reset my password''
                        (connected\<lparr> failing := [SessionUpdate] \<rparr>))
               = outbox (connected\<lparr> failing := [SessionUpdate] \<rparr>) @ news
             \<and> list_all (\<lambda>e. isNameUpdate (snd e)) news)
   \<and> outbox (handleTextInput exampleEnv client1 ''how do I reset my password''
               (connected\<lparr> failing := [SessionUpdate] \<rparr>)) = []
   \<and> (if needsComplexProcessing (trim ''how do I reset my password'')
        then handleComplexQuery exampleEnv ''s1'' (trim ''how do I reset my password'') client1
               (connected\<lparr> failing := [MemoryCreate] \<rparr>)
        else handleSimpleChat exampleEnv ''s1'' (trim ''how do I reset my password'') client1
               (connected\<lparr> failing := [MemoryCreate] \<rparr>))
       = (Inr ''hello'', connected\<lparr> failing := [MemoryCreate] \<rparr>)
   \<and> fails (connected\<lparr> failing := [MemoryCreate] \<rparr>) MemoryCreate
   \<and> handleTextInput exampleEnv client1 ''how do I reset my password''
         (connected\<lparr> failing := [MemoryCreate] \<rparr>)
       = (connected\<lparr> failing := [MemoryCreate] \<rparr>)
           \<lparr> outbox := outbox (connected\<lparr> failing := [MemoryCreate] \<rparr>) @
               [(sock_id client1, TextComplete (warningSign @ '' '' @ storeError)),
                (sock_id client1, ErrorMessage storeError)] \<rparr>"
proof -
  let ?s = "connected\<lparr> failing := [SessionUpdate] \<rparr>"
  let ?t = "connected\<lparr> failing := [MemoryCreate] \<rparr>"
  let ?m = "''how do I reset my password''"
  have a: "sock_sessionId client1 = Some ''s1''" and b: "sock_userId client1 = Some ''u1''"
    by (simp_all add: client1_def)
  have c: "''s1'' \<noteq> []" and d: "''u1'' \<noteq> []" by simp_all
  have simple: "\<not> needsComplexProcessing (trim ?m)"
    by code_simp
  have path: "(if needsComplexProcessing (trim ?m)
        then handleComplexQuery exampleEnv ''s1'' (trim ?m) client1 ?s
        else handleSimpleChat exampleEnv ''s1'' (trim ?m) client1 ?s)
       = (Inr ''hello'', ?s)"
    using simple by (simp add: exampleEnv_def)
  have path': "(if needsComplexProcessing (trim ?m)
        then handleComplexQuery exampleEnv ''s1'' (trim ?m) client1 ?t
        else handleSimpleChat exampleEnv ''s1'' (trim ?m) client1 ?t)
       = (Inr ''hello'', ?t)"
    using simple by (simp add: exampleEnv_def)
  have mem: "\<not> fails ?s MemoryCreate" and upd: "fails ?s SessionUpdate"
    and mem': "fails ?t MemoryCreate"
    by (simp_all add: fails_def)
  have subst: "isSubstantiveMessage ?m"
    by code_simp
  have out: "outbox (handleTextInput exampleEnv client1 ?m ?s) = []"
    by code_simp
  from turn_settlement [OF a b c d path] mem
  have e: "\<exists>news. outbox (handleTextInput exampleEnv client1 ?m ?s) = outbox ?s @ news
             \<and> list_all (\<lambda>e. isNameUpdate (snd e)) news"
    by blast
  from turn_settlement [OF a b c d path'] mem'
  have f: "handleTextInput exampleEnv client1 ?m ?t
       = ?t\<lparr> outbox := outbox ?t @
               [(sock_id client1, TextComplete (warningSign @ '' '' @ storeError)),
                (sock_id client1, ErrorMessage storeError)] \<rparr>"
    by blast
  from a b path mem upd subst e out path' mem' f show ?thesis by blast
qed

theorem memory_append_failure_is_surfaced:
  "handleSimpleChat exampleEnv ''s1'' (trim ''hi'') client1 (connected\<lparr> failing := [MemoryCreate] \<rparr>)
     = (Inr ''hello'', connected\<lparr> failing := [MemoryCreate] \<rparr>)
   \<and> \<not> needsComplexProcessing (trim ''hi'')
   \<and> outbox (handleTextInput exampleEnv client1 ''hi'' (connected\<lparr> failing := [MemoryCreate] \<rparr>))
     = [(''sock1'', TextComplete (warningSign @ '' StoreError'')),
        (''sock1'', ErrorMessage ''StoreError'')]"
  by code_simp

end
